theory Spec2Isabelle
  imports Main "HOL-Library.Monad_Syntax" "HOL-Library.List_Lexorder" "HOL-Library.Char_ord"
begin

section \<open>Python values\<close>

text \<open>
  The values that \<^verbatim>\<open>json.loads\<close> and \<^verbatim>\<open>yaml.safe_load\<close> hand to the program, and that the
  program stores in its untyped dataclass fields. A Python \<^verbatim>\<open>str\<close> is a \<open>string\<close> (code
  points below 256); a \<^verbatim>\<open>dict\<close> with string keys is an association list read with
  \<open>map_of\<close>. Floating-point numbers are outside the model.
\<close>

datatype pyval =
    PNone
  | PBool bool
  | PInt int
  | PStr string
  | PList "pyval list"
  | PDict "(string \<times> pyval) list"

type_synonym bytes = "nat list"

text \<open>Truth value testing (\<^verbatim>\<open>if x\<close>, \<^verbatim>\<open>not x\<close>, \<^verbatim>\<open>x or y\<close>).\<close>

fun truthy :: "pyval \<Rightarrow> bool" where
  "truthy PNone = False"
| "truthy (PBool b) = b"
| "truthy (PInt n) = (n \<noteq> 0)"
| "truthy (PStr s) = (s \<noteq> [])"
| "truthy (PList xs) = (xs \<noteq> [])"
| "truthy (PDict kvs) = (kvs \<noteq> [])"

definition py_or :: "pyval \<Rightarrow> pyval \<Rightarrow> pyval" where
  "py_or a b = (if truthy a then a else b)"

fun is_str :: "pyval \<Rightarrow> bool" where
  "is_str (PStr s) = True"
| "is_str v = False"

fun is_dict :: "pyval \<Rightarrow> bool" where
  "is_dict (PDict kvs) = True"
| "is_dict v = False"

fun is_list :: "pyval \<Rightarrow> bool" where
  "is_list (PList xs) = True"
| "is_list v = False"

text \<open>
  Operations that raise on the wrong type return \<open>None\<close> there:
  \<^verbatim>\<open>d.get(k, default)\<close> and \<^verbatim>\<open>d.keys()\<close> raise AttributeError unless \<^verbatim>\<open>d\<close> is a dict,
  \<^verbatim>\<open>len(x)\<close> raises TypeError on None, booleans and integers.
\<close>

fun py_get :: "pyval \<Rightarrow> string \<Rightarrow> pyval \<Rightarrow> pyval option" where
  "py_get (PDict kvs) k dflt = Some (case map_of kvs k of None \<Rightarrow> dflt | Some v \<Rightarrow> v)"
| "py_get v k dflt = None"

fun py_keys :: "pyval \<Rightarrow> string list option" where
  "py_keys (PDict kvs) = Some (map fst kvs)"
| "py_keys v = None"

fun py_len :: "pyval \<Rightarrow> nat option" where
  "py_len (PStr s) = Some (length s)"
| "py_len (PList xs) = Some (length xs)"
| "py_len (PDict kvs) = Some (length kvs)"
| "py_len v = None"

section \<open>Strings\<close>

text \<open>\<^verbatim>\<open>str.isspace\<close> on one character, for code points below 256.\<close>

definition py_isspace :: "char \<Rightarrow> bool" where
  "py_isspace c =
     (let n = (of_char c :: nat)
      in (9 \<le> n \<and> n \<le> 13) \<or> (28 \<le> n \<and> n \<le> 32) \<or> n = 133 \<or> n = 160)"

definition strip :: "string \<Rightarrow> string" where
  "strip s = rev (dropWhile py_isspace (rev (dropWhile py_isspace s)))"

definition startswith :: "string \<Rightarrow> string \<Rightarrow> bool" where
  "startswith s p = (take (length p) s = p)"

definition endswith :: "string \<Rightarrow> string \<Rightarrow> bool" where
  "endswith s p = (length p \<le> length s \<and> drop (length s - length p) s = p)"

text \<open>\<^verbatim>\<open>sub in s\<close> for strings.\<close>

fun contains :: "string \<Rightarrow> string \<Rightarrow> bool" where
  "contains sub [] = (sub = [])"
| "contains sub (c # cs) = (startswith (c # cs) sub \<or> contains sub cs)"

text \<open>\<^verbatim>\<open>s.replace(old, new)\<close> for one-character \<^verbatim>\<open>old\<close> and \<^verbatim>\<open>new\<close>.\<close>

definition replace :: "string \<Rightarrow> char \<Rightarrow> char \<Rightarrow> string" where
  "replace s old new = map (\<lambda>c. if c = old then new else c) s"

text \<open>\<^verbatim>\<open>s[1:-1]\<close>: without its first and its last character; empty when \<^verbatim>\<open>s\<close> is shorter than 2.\<close>

definition slice_1_m1 :: "string \<Rightarrow> string" where
  "slice_1_m1 s = butlast (tl s)"

text \<open>\<^verbatim>\<open>str.lower\<close>, character by character (A-Z, and the Latin-1 capitals).\<close>

definition lower_char :: "char \<Rightarrow> char" where
  "lower_char c =
     (let n = (of_char c :: nat)
      in if (65 \<le> n \<and> n \<le> 90) \<or> (192 \<le> n \<and> n \<le> 222 \<and> n \<noteq> 215)
         then char_of (n + 32) else c)"

definition lower :: "string \<Rightarrow> string" where
  "lower s = map lower_char s"

section \<open>External collaborators\<close>

text \<open>
  The command runners and the library functions the program calls, as parameters.
  A library call that raises returns \<open>None\<close> (or \<open>Inl\<close> with the exception's message).
  \<^item> \<open>run_rancher_command\<close>, \<open>run_helm_with_kubeconfig\<close>, \<open>run_helm_command\<close>: the wrappers
    around \<^verbatim>\<open>subprocess.run\<close>; each catches every exception and returns \<^verbatim>\<open>(success, output)\<close>.
  \<^item> \<open>json_loads\<close>: \<^verbatim>\<open>json.loads\<close>, \<open>None\<close> for JSONDecodeError.
  \<^item> \<open>b64decode\<close>: \<^verbatim>\<open>base64.b64decode\<close> on a \<^verbatim>\<open>str\<close>, \<open>None\<close> for binascii.Error and ValueError.
  \<^item> \<open>utf8_decode\<close>: \<^verbatim>\<open>bytes.decode('utf-8')\<close>, \<open>None\<close> for UnicodeDecodeError.
  \<^item> \<open>gzip_decompress\<close>: \<^verbatim>\<open>gzip.decompress\<close>, \<open>None\<close> for BadGzipFile, EOFError, zlib.error.
  \<^item> \<open>yaml_dump\<close>: \<^verbatim>\<open>yaml.dump(v, default_flow_style=False)\<close>; the default dumper
    represents every value of \<open>pyval\<close>.
  \<^item> \<open>yaml_safe_load\<close>: \<^verbatim>\<open>yaml.safe_load\<close>, \<open>Inl\<close> the message of the exception it raised.
  \<^item> \<open>py_repr\<close>: \<^verbatim>\<open>str(v)\<close> for a value that is not a string, None or a boolean.
  \<^item> \<open>fromisoformat\<close>, \<open>isoformat\<close>, \<open>json_dumps\<close>: \<^verbatim>\<open>datetime.fromisoformat\<close> (\<open>None\<close> for
    ValueError), \<^verbatim>\<open>datetime.isoformat\<close>, \<^verbatim>\<open>json.dumps(v, indent=2)\<close>.
  \<^item> \<open>current_kubeconfig\<close>, \<open>temp_kubeconfig\<close>: what \<^verbatim>\<open>get_current_kubeconfig()\<close> and
    \<^verbatim>\<open>generate_temp_kubeconfig()\<close> return.
  \<^item> \<open>disk_writable\<close>: whether \<^verbatim>\<open>Path.write_text\<close> on the cache file succeeds.
\<close>

datatype datetime = Naive int | Aware int

record env =
  run_rancher_command :: "pyval list \<Rightarrow> bool \<times> string"
  run_helm_with_kubeconfig :: "pyval list \<Rightarrow> string \<Rightarrow> bool \<times> string"
  run_helm_command :: "string list \<Rightarrow> bool \<times> string"
  json_loads :: "string \<Rightarrow> pyval option"
  json_dumps :: "pyval \<Rightarrow> string"
  b64decode :: "string \<Rightarrow> bytes option"
  utf8_decode :: "bytes \<Rightarrow> string option"
  gzip_decompress :: "bytes \<Rightarrow> bytes option"
  yaml_dump :: "pyval \<Rightarrow> string"
  yaml_safe_load :: "string \<Rightarrow> string + pyval"
  py_repr :: "pyval \<Rightarrow> string"
  fromisoformat :: "string \<Rightarrow> datetime option"
  isoformat :: "int \<Rightarrow> string"
  current_kubeconfig :: "string option"
  temp_kubeconfig :: "string option"
  disk_writable :: bool

text \<open>\<^verbatim>\<open>str(v)\<close>, which is also what an f-string field \<^verbatim>\<open>{v}\<close> inserts.\<close>

fun py_str :: "env \<Rightarrow> pyval \<Rightarrow> string" where
  "py_str e (PStr s) = s"
| "py_str e PNone = ''None''"
| "py_str e (PBool b) = (if b then ''True'' else ''False'')"
| "py_str e v = py_repr e v"

text \<open>\<^verbatim>\<open>' '.join(args)\<close> raises TypeError unless every item is a string.\<close>

definition join_ok :: "pyval list \<Rightarrow> bool" where
  "join_ok args = list_all is_str args"

section \<open>Release metadata decoder (core.py, get_helm_release_secret_metadata)\<close>

definition kubectl_args :: "env \<Rightarrow> pyval \<Rightarrow> pyval \<Rightarrow> pyval list" where
  "kubectl_args e release_name namespace =
     [PStr ''kubectl'', PStr ''get'', PStr ''secret'',
      PStr (''sh.helm.release.v1.'' @ py_str e release_name @ ''.v1''),
      PStr ''-n'', namespace, PStr ''-o'', PStr ''json'']"

text \<open>\<^verbatim>\<open>base64.b64decode(v)\<close> on a JSON value: TypeError unless \<^verbatim>\<open>v\<close> is a string.\<close>

fun b64decode_val :: "env \<Rightarrow> pyval \<Rightarrow> bytes option" where
  "b64decode_val e (PStr s) = b64decode e s"
| "b64decode_val e v = None"

text \<open>Lines 628-631: remove one pair of surrounding double quotes.\<close>

definition strip_quotes :: "string \<Rightarrow> string" where
  "strip_quotes decoded_once =
     (if startswith decoded_once [CHR 0x22] \<and> endswith decoded_once [CHR 0x22]
      then slice_1_m1 decoded_once else decoded_once)"

text \<open>
  The body of the inner \<^verbatim>\<open>try\<close> (lines 603-663), in the three parts it is written in;
  \<open>None\<close> when a part raises. The \<^verbatim>\<open>log_debug\<close> arguments that can raise (\<^verbatim>\<open>.keys()\<close>,
  \<^verbatim>\<open>len(...)\<close>) are evaluated where the source evaluates them.

  Lines 604-610: the \<^verbatim>\<open>release\<close> entry of the secret's \<^verbatim>\<open>data\<close>.
\<close>

definition secret_release_data :: "env \<Rightarrow> string \<Rightarrow> pyval option" where
  "secret_release_data e output =
     do {
       secret_data \<leftarrow> json_loads e output;
       _ \<leftarrow> py_keys secret_data;
       data_section \<leftarrow> py_get secret_data ''data'' (PDict []);
       _ \<leftarrow> py_keys data_section;
       py_get data_section ''release'' (PStr [])
     }"

text \<open>Lines 616-646: base64, quotes, base64, gzip, JSON.\<close>

definition decode_release_data :: "env \<Rightarrow> pyval \<Rightarrow> pyval option" where
  "decode_release_data e release_data =
     do {
       _ \<leftarrow> py_len release_data;
       raw_once \<leftarrow> b64decode_val e release_data;
       decoded_once \<leftarrow> utf8_decode e raw_once;
       decoded_twice \<leftarrow> b64decode e (strip_quotes decoded_once);
       raw_json \<leftarrow> gzip_decompress e decoded_twice;
       decompressed \<leftarrow> utf8_decode e raw_json;
       release_json \<leftarrow> json_loads e decompressed;
       _ \<leftarrow> py_keys release_json;
       Some release_json
     }"

text \<open>Lines 649-660: the four fields of \<^verbatim>\<open>chart.metadata\<close>.\<close>

definition extract_chart_metadata :: "pyval \<Rightarrow> pyval option" where
  "extract_chart_metadata release_json =
     do {
       chart_section \<leftarrow> py_get release_json ''chart'' (PDict []);
       chart_metadata \<leftarrow>
         (if is_dict chart_section then py_get chart_section ''metadata'' (PDict [])
          else Some (PDict []));
       name \<leftarrow> py_get chart_metadata ''name'' (PStr []);
       version \<leftarrow> py_get chart_metadata ''version'' (PStr []);
       appVersion \<leftarrow> py_get chart_metadata ''appVersion'' (PStr []);
       description \<leftarrow> py_get chart_metadata ''description'' (PStr []);
       Some (PDict [(''name'', name), (''version'', version),
                    (''appVersion'', appVersion), (''description'', description)])
     }"

text \<open>The three parts in sequence, with the early return of lines 612-614.\<close>

definition decode_secret :: "env \<Rightarrow> string \<Rightarrow> pyval option" where
  "decode_secret e output =
     do {
       release_data \<leftarrow> secret_release_data e output;
       if \<not> truthy release_data then Some (PDict [])
       else do {
         release_json \<leftarrow> decode_release_data e release_data;
         extract_chart_metadata release_json
       }
     }"

text \<open>
  The whole function: the outer \<^verbatim>\<open>try\<close> (the join in the log line raises TypeError when
  \<^verbatim>\<open>namespace\<close> is not a string), the command, and the handlers, every one of which
  returns \<^verbatim>\<open>{}\<close>. \<^verbatim>\<open>kubeconfig_path\<close> is not used by the source.
\<close>

definition get_helm_release_secret_metadata :: "env \<Rightarrow> pyval \<Rightarrow> pyval \<Rightarrow> string \<Rightarrow> pyval" where
  "get_helm_release_secret_metadata e release_name namespace kubeconfig_path =
     (if \<not> join_ok (kubectl_args e release_name namespace) then PDict []
      else
        (let (success, output) = run_rancher_command e (kubectl_args e release_name namespace)
         in if \<not> success \<or> strip output = [] then PDict []
            else (case decode_secret e output of None \<Rightarrow> PDict [] | Some result \<Rightarrow> result)))"

section \<open>Listing deployed releases (core.py, list_helm_releases)\<close>

text \<open>
  The dataclass \<^verbatim>\<open>HelmRelease\<close>. The fields filled from JSON hold whatever the JSON holds;
  \<open>rel_version\<close> is the release revision, passed through \<^verbatim>\<open>str\<close>.
\<close>

record HelmRelease =
  rel_name :: pyval
  rel_namespace :: pyval
  rel_chart :: pyval
  rel_version :: string
  rel_status :: pyval
  rel_chart_version :: pyval
  rel_app_version :: pyval

text \<open>
  Lines 725-738: chart name, chart version and app version from \<^verbatim>\<open>helm get metadata\<close>, with the
  \<^verbatim>\<open>chart\<close> field of the \<^verbatim>\<open>helm list\<close> item as the fallback. \<open>None\<close> when \<^verbatim>\<open>metadata.get\<close>
  raises AttributeError, which only the outer handler of the function catches.
\<close>

definition listed_chart_fields ::
  "env \<Rightarrow> pyval \<Rightarrow> bool \<Rightarrow> string \<Rightarrow> (pyval \<times> pyval \<times> pyval) option" where
  "listed_chart_fields e item metadata_success metadata_output =
     (if metadata_success \<and> strip metadata_output \<noteq> [] then
        (case json_loads e metadata_output of
           None \<Rightarrow> do { c \<leftarrow> py_get item ''chart'' (PStr []); Some (c, PStr [], PStr []) }
         | Some metadata \<Rightarrow>
             do {
               c \<leftarrow> py_get metadata ''chart'' (PStr []);
               v \<leftarrow> py_get metadata ''version'' (PStr []);
               a \<leftarrow> py_get metadata ''appVersion'' (PStr []);
               Some (c, v, a)
             })
      else do { c \<leftarrow> py_get item ''chart'' (PStr []); Some (c, PStr [], PStr []) })"

text \<open>
  Lines 740-746: when the chart version or the app version is still empty, the release
  secret is decoded, and each field of a non-empty result replaces the listed value
  unless the decoded field is itself empty (\<^verbatim>\<open>secret_metadata.get(k, "") or listed\<close>).
\<close>

definition backfill_from_secret ::
  "env \<Rightarrow> pyval \<Rightarrow> pyval \<Rightarrow> string \<Rightarrow> pyval \<times> pyval \<times> pyval
     \<Rightarrow> (pyval \<times> pyval \<times> pyval) option" where
  "backfill_from_secret e release_name release_namespace kubeconfig_path listed =
     (case listed of (chart_name, chart_version, app_version) \<Rightarrow>
        if \<not> truthy chart_version \<or> \<not> truthy app_version then
          (let secret_metadata =
                 get_helm_release_secret_metadata e release_name release_namespace kubeconfig_path
           in if truthy secret_metadata then
                do {
                  n \<leftarrow> py_get secret_metadata ''name'' (PStr []);
                  v \<leftarrow> py_get secret_metadata ''version'' (PStr []);
                  a \<leftarrow> py_get secret_metadata ''appVersion'' (PStr []);
                  Some (py_or n chart_name, py_or v chart_version, py_or a app_version)
                }
              else Some listed)
        else Some listed)"

text \<open>Lines 712-756: one dict item of the \<^verbatim>\<open>helm list\<close> output.\<close>

definition release_of_item :: "env \<Rightarrow> string \<Rightarrow> pyval \<Rightarrow> HelmRelease option" where
  "release_of_item e kubeconfig_path item =
     do {
       release_name \<leftarrow> py_get item ''name'' (PStr []);
       release_namespace \<leftarrow> py_get item ''namespace'' (PStr []);
       revision \<leftarrow> py_get item ''revision'' (PStr []);
       release_status \<leftarrow> py_get item ''status'' (PStr []);
       let (metadata_success, metadata_output) =
             run_helm_with_kubeconfig e
               [PStr ''get'', PStr ''metadata'', release_name, PStr ''-n'', release_namespace,
                PStr ''--output'', PStr ''json'']
               kubeconfig_path;
       listed \<leftarrow> listed_chart_fields e item metadata_success metadata_output;
       merged \<leftarrow> backfill_from_secret e release_name release_namespace kubeconfig_path listed;
       (case merged of (chart_name, chart_version, app_version) \<Rightarrow>
          Some \<lparr>rel_name = release_name, rel_namespace = release_namespace,
                rel_chart = chart_name, rel_version = py_str e revision,
                rel_status = release_status, rel_chart_version = chart_version,
                rel_app_version = app_version\<rparr>)
     }"

text \<open>The loop of lines 710-756: items that are not dicts are skipped.\<close>

fun collect_releases :: "env \<Rightarrow> string \<Rightarrow> pyval list \<Rightarrow> HelmRelease list option" where
  "collect_releases e kubeconfig_path [] = Some []"
| "collect_releases e kubeconfig_path (item # items) =
     (if is_dict item then
        do {
          r \<leftarrow> release_of_item e kubeconfig_path item;
          rs \<leftarrow> collect_releases e kubeconfig_path items;
          Some (r # rs)
        }
      else collect_releases e kubeconfig_path items)"

text \<open>\<^verbatim>\<open>if not kubeconfig_path\<close>: None and the empty string both count as missing.\<close>

fun usable_path :: "string option \<Rightarrow> string option" where
  "usable_path None = None"
| "usable_path (Some p) = (if p = [] then None else Some p)"

text \<open>
  The whole function; \<^verbatim>\<open>namespace\<close> is a string or None. Every exception ends in the outer
  handler, which returns the empty list. (Recording the temporary kubeconfig as the
  current one has no effect on the result.)
\<close>

definition list_helm_releases :: "env \<Rightarrow> string option \<Rightarrow> HelmRelease list" where
  "list_helm_releases e namespace =
     (case (case usable_path (current_kubeconfig e) of
              Some p \<Rightarrow> Some p
            | None \<Rightarrow> usable_path (temp_kubeconfig e)) of
        None \<Rightarrow> []
      | Some kubeconfig_path \<Rightarrow>
          (let helm_args =
                 [PStr ''list'', PStr ''--output'', PStr ''json''] @
                 (case usable_path namespace of
                    Some ns \<Rightarrow> [PStr ''-n'', PStr ns]
                  | None \<Rightarrow> [PStr ''--all-namespaces'']);
               (success, output) = run_helm_with_kubeconfig e helm_args kubeconfig_path
           in if \<not> success \<or> strip output = [] then []
              else (case json_loads e output of
                      None \<Rightarrow> []
                    | Some (PList items) \<Rightarrow>
                        (case collect_releases e kubeconfig_path items of
                           None \<Rightarrow> []
                         | Some releases \<Rightarrow> releases)
                    | Some other \<Rightarrow> [])))"

section \<open>Chart catalog cache (models.py, EEA_CHARTS; core.py, get_eea_charts)\<close>

definition EEA_HELM_REPO :: string where
  "EEA_HELM_REPO = ''https://eea.github.io/helm-charts/''"

definition EEA_CHARTS :: "string list" where
  "EEA_CHARTS =
     [''advisory-board-backend'', ''advisory-board-frontend'', ''archiva'', ''archives'', ''bdr'',
      ''cachet'', ''casservice'', ''cdr'', ''centos7dev'', ''cluster-role-manager'', ''cm-share'',
      ''contreg'', ''converters'', ''databridge'', ''datadict'', ''eea-website-backend'',
      ''eea-website-frontend'', ''eggrepo'', ''eionet-gemet'', ''eionetldap'', ''elastic6'',
      ''elastic7'', ''emrt-esd'', ''emrt-necd'', ''eni-seis'', ''eunis'', ''fise-backend'',
      ''fise-frontend'', ''freshwater'', ''gitea'', ''glosreg'', ''haproxy'', ''iwlearn'',
      ''jenkins-master'', ''jenkins-slave'', ''keycloak-eea'', ''landscapeapi'', ''lcp'',
      ''lcp-frontend'', ''marine'', ''mars-backend'', ''mars-frontend'', ''memcached'',
      ''msd'', ''netcdf-utils'', ''opensearch'', ''opensearch-dashboards'', ''postfix'',
      ''postgres'', ''redis'', ''reportnet'', ''reportnet3'', ''rn-auth'', ''rn-ldap'',
      ''rn-postgresql'', ''sugarcube'', ''tika'', ''tralert'', ''varnish'', ''veeam-agent'',
      ''volto'', ''wise-backend'', ''wise-frontend'']"

text \<open>
  The module globals \<^verbatim>\<open>_cached_charts\<close> and \<^verbatim>\<open>_charts_cache_timestamp\<close>, the content of the
  cache file (\<open>None\<close> when the file does not exist), and the helm commands run so far,
  oldest first. Timestamps count microseconds; \<^verbatim>\<open>datetime.now()\<close> is naive, and subtracting
  an aware timestamp from it raises TypeError.
\<close>

record cache_state =
  cached_charts :: pyval
  charts_cache_timestamp :: "datetime option"
  charts_cache_file :: "string option"
  helm_calls :: "string list list"

definition charts_cache_duration :: int where
  "charts_cache_duration = 3600"

text \<open>\<^verbatim>\<open>run_helm_command\<close>, recording the call.\<close>

definition helm :: "env \<Rightarrow> string list \<Rightarrow> cache_state \<Rightarrow> (bool \<times> string) \<times> cache_state" where
  "helm e args st = (run_helm_command e args, st\<lparr>helm_calls := helm_calls st @ [args]\<rparr>)"

text \<open>
  Lines 899-906: the names with the prefix \<^verbatim>\<open>eea/\<close>, without it. \<open>None\<close> when a \<^verbatim>\<open>name\<close> is
  not a string (\<^verbatim>\<open>startswith\<close> raises AttributeError).
\<close>

fun chart_names :: "pyval list \<Rightarrow> string list option" where
  "chart_names [] = Some []"
| "chart_names (PDict kvs # rest) =
     (case map_of kvs ''name'' of
        None \<Rightarrow> chart_names rest
      | Some (PStr full_name) \<Rightarrow>
          do {
            charts \<leftarrow> chart_names rest;
            Some (if startswith full_name ''eea/'' then drop 4 full_name # charts else charts)
          }
      | Some other \<Rightarrow> None)"
| "chart_names (chart_info # rest) = chart_names rest"

text \<open>Lines 865-917: three helm commands in sequence; every failure gives the empty list.\<close>

definition fetch_charts_from_helm_repo :: "env \<Rightarrow> cache_state \<Rightarrow> string list \<times> cache_state" where
  "fetch_charts_from_helm_repo e st =
     (let ((add_repo_success, add_repo_output), st1) =
            helm e [''repo'', ''add'', ''eea'', EEA_HELM_REPO, ''--force-update''] st
      in if \<not> add_repo_success then ([], st1)
         else
           (let ((update_success, update_output), st2) = helm e [''repo'', ''update''] st1
            in if \<not> update_success then ([], st2)
               else
                 (let ((search_success, search_output), st3) =
                        helm e [''search'', ''repo'', ''eea/'', ''--output'', ''json''] st2
                  in if \<not> search_success \<or> strip search_output = [] then ([], st3)
                     else (case json_loads e search_output of
                             Some (PList charts_data) \<Rightarrow>
                               (case chart_names charts_data of
                                  None \<Rightarrow> ([], st3)
                                | Some charts \<Rightarrow> (sort charts, st3))
                           | other \<Rightarrow> ([], st3)))))"

text \<open>
  Lines 945-966. The log lines evaluate \<^verbatim>\<open>len(charts)\<close>, so a \<^verbatim>\<open>charts\<close> entry without a length
  ends in the handler like every other exception.
\<close>

definition load_charts_cache_from_disk :: "env \<Rightarrow> cache_state \<Rightarrow> pyval \<times> datetime option" where
  "load_charts_cache_from_disk e st =
     (case charts_cache_file st of
        None \<Rightarrow> (PList [], None)
      | Some text \<Rightarrow>
          (case do {
                  cache_data \<leftarrow> json_loads e text;
                  charts \<leftarrow> py_get cache_data ''charts'' (PList []);
                  timestamp_str \<leftarrow> py_get cache_data ''timestamp'' PNone;
                  if truthy timestamp_str then
                    (case timestamp_str of
                       PStr s \<Rightarrow> do { timestamp \<leftarrow> fromisoformat e s; _ \<leftarrow> py_len charts;
                                       Some (charts, Some timestamp) }
                     | other \<Rightarrow> None)
                  else do { _ \<leftarrow> py_len charts; Some (charts, None) }
                } of
             None \<Rightarrow> (PList [], None)
           | Some r \<Rightarrow> r))"

text \<open>Lines 968-981.\<close>

definition save_charts_cache_to_disk :: "env \<Rightarrow> string list \<Rightarrow> int \<Rightarrow> cache_state \<Rightarrow> cache_state" where
  "save_charts_cache_to_disk e charts timestamp st =
     (if disk_writable e then
        st\<lparr>charts_cache_file :=
             Some (json_dumps e
                     (PDict [(''charts'', PList (map PStr charts)),
                             (''timestamp'', PStr (isoformat e timestamp)),
                             (''version'', PStr ''1.0'')]))\<rparr>
      else st)"

text \<open>\<^verbatim>\<open>(now - timestamp).total_seconds() < _charts_cache_duration\<close>, in microseconds.\<close>

fun cache_is_fresh :: "int \<Rightarrow> datetime \<Rightarrow> bool option" where
  "cache_is_fresh now (Naive t) = Some (now - t < charts_cache_duration * 1000000)"
| "cache_is_fresh now (Aware t) = None"

text \<open>\<^verbatim>\<open>return _cached_charts if _cached_charts else EEA_CHARTS\<close>.\<close>

definition cached_or_static :: "cache_state \<Rightarrow> pyval" where
  "cached_or_static st =
     (if truthy (cached_charts st) then cached_charts st else PList (map PStr EEA_CHARTS))"

text \<open>Lines 990-996: load the disk cache when the memory cache is empty.\<close>

definition load_if_empty :: "env \<Rightarrow> cache_state \<Rightarrow> cache_state" where
  "load_if_empty e st =
     (if \<not> truthy (cached_charts st) then
        (let (disk_charts, disk_timestamp) = load_charts_cache_from_disk e st
         in if truthy disk_charts
            then st\<lparr>cached_charts := disk_charts, charts_cache_timestamp := disk_timestamp\<rparr>
            else st)
      else st)"

text \<open>
  Lines 983-1035: the result and the state afterwards. \<^verbatim>\<open>now\<close> is \<^verbatim>\<open>datetime.now()\<close>. The
  only statement of the body that can raise is the age test; the handler then returns
  the cached list or the static one.
\<close>

definition get_eea_charts ::
  "env \<Rightarrow> int \<Rightarrow> bool \<Rightarrow> bool \<Rightarrow> cache_state \<Rightarrow> pyval \<times> cache_state" where
  "get_eea_charts e now force_refresh allow_repo_fetch st =
     (let st1 = load_if_empty e st;
          hit = (if \<not> force_refresh \<and> truthy (cached_charts st1) then
                   (case charts_cache_timestamp st1 of
                      None \<Rightarrow> Some False
                    | Some timestamp \<Rightarrow> cache_is_fresh now timestamp)
                 else Some False)
      in case hit of
           None \<Rightarrow> (cached_or_static st1, st1)
         | Some True \<Rightarrow> (cached_charts st1, st1)
         | Some False \<Rightarrow>
             if \<not> allow_repo_fetch then (cached_or_static st1, st1)
             else
               (let (fresh_charts, st2) = fetch_charts_from_helm_repo e st1
                in if fresh_charts \<noteq> [] then
                     (PList (map PStr fresh_charts),
                      save_charts_cache_to_disk e fresh_charts now
                        (st2\<lparr>cached_charts := PList (map PStr fresh_charts),
                             charts_cache_timestamp := Some (Naive now)\<rparr>))
                   else (cached_or_static st2, st2)))"

text \<open>
  Lines 1066-1086. \<open>eea_charts\<close> is the list of names that
  \<^verbatim>\<open>get_eea_charts(allow_repo_fetch=False)\<close> returned.
\<close>

definition get_chart_suggestions :: "string list \<Rightarrow> string \<Rightarrow> string list" where
  "get_chart_suggestions eea_charts partial_name =
     (if partial_name = [] then take 10 eea_charts
      else
        (let partial_lower = lower partial_name;
             suggestions =
               fold (\<lambda>chart suggestions.
                       if startswith (lower chart) partial_lower
                       then suggestions @ [chart] else suggestions)
                    eea_charts [];
             suggestions =
               fold (\<lambda>chart suggestions.
                       if contains partial_lower (lower chart) \<and> chart \<notin> set suggestions
                       then suggestions @ [chart] else suggestions)
                    eea_charts suggestions
         in take 10 suggestions))"

section \<open>Artifact generation (core.py, generate_values_yaml, generate_configmap_yaml, generate_fleet_yaml)\<close>

record FleetYamlConfig =
  rollout_strategy :: pyval

text \<open>
  The dataclass \<^verbatim>\<open>FleetConfig\<close>. The fields that receive a value read from JSON or YAML
  are \<open>pyval\<close>; the others hold the strings of the form fields.
\<close>

record FleetConfig =
  app_name :: string
  namespace :: string
  chart_name :: pyval
  chart_version :: pyval
  helm_repo :: string
  config_values :: pyval
  cluster_values :: pyval
  dependencies :: "string list"
  target_cluster :: string
  is_existing_release :: bool
  release_name :: pyval
  chart_metadata :: pyval
  fleet_yaml_config :: FleetYamlConfig

text \<open>\<^verbatim>\<open>DEFAULT_VALUES_TEMPLATE.format(chart_name=...)\<close>, applied to \<^verbatim>\<open>str(chart_name)\<close>.\<close>

definition DEFAULT_VALUES_TEMPLATE :: "string \<Rightarrow> string" where
  "DEFAULT_VALUES_TEMPLATE chart =
     ''\<newline># Helm Values for '' @ chart @
     ''\<newline>replicaCount: 1\<newline>\<newline>image:\<newline>  repository: nginx\<newline>  pullPolicy: IfNotPresent\<newline>  tag: '' @
     [CHR 0x22] @ ''stable'' @ [CHR 0x22] @ ''\<newline>'' @
     ''\<newline>service:\<newline>  type: ClusterIP\<newline>  port: 80\<newline>\<newline>ingress:\<newline>  enabled: false\<newline>'' @
     ''\<newline>resources:\<newline>  limits:\<newline>    cpu: 500m\<newline>    memory: 512Mi\<newline>  requests:\<newline>    cpu: 250m\<newline>    memory: 128Mi\<newline>''"

definition generate_values_yaml :: "env \<Rightarrow> FleetConfig \<Rightarrow> string" where
  "generate_values_yaml e fleet_config =
     (if truthy (config_values fleet_config) then yaml_dump e (config_values fleet_config)
      else DEFAULT_VALUES_TEMPLATE (py_str e (chart_name fleet_config)))"

text \<open>Lines 1109-1119: the object handed to \<^verbatim>\<open>yaml.dump\<close>.\<close>

definition configmap :: "env \<Rightarrow> FleetConfig \<Rightarrow> pyval" where
  "configmap e fleet_config =
     PDict [(''apiVersion'', PStr ''v1''),
            (''kind'', PStr ''ConfigMap''),
            (''metadata'',
               PDict [(''name'', PStr (app_name fleet_config @ ''-config'')),
                      (''namespace'', PStr (namespace fleet_config))]),
            (''data'',
               PDict [(''values.yaml'',
                       py_or (PStr (generate_values_yaml e fleet_config)) (PStr []))])]"

definition generate_configmap_yaml :: "env \<Rightarrow> FleetConfig \<Rightarrow> string" where
  "generate_configmap_yaml e fleet_config = yaml_dump e (configmap e fleet_config)"

text \<open>Lines 1132-1145.\<close>

definition helm_config :: "FleetConfig \<Rightarrow> (string \<times> pyval) list" where
  "helm_config fleet_config =
     [(''chart'', chart_name fleet_config),
      (''repo'', PStr (helm_repo fleet_config)),
      (''version'', py_or (chart_version fleet_config) (PStr ''latest'')),
      (''valuesFrom'',
         PList [PDict [(''configMapKeyRef'',
                        PDict [(''name'', PStr (app_name fleet_config @ ''-config'')),
                               (''key'', PStr ''values.yaml'')])]])]"

text \<open>
  Lines 1148-1170: the metadata in effect is the config's own when that is non-empty,
  otherwise, for an existing release, what the decoder returns.
\<close>

definition effective_chart_metadata :: "env \<Rightarrow> FleetConfig \<Rightarrow> pyval" where
  "effective_chart_metadata e fleet_config =
     (if truthy (chart_metadata fleet_config) then chart_metadata fleet_config
      else if is_existing_release fleet_config \<and> truthy (release_name fleet_config) then
        (case (case usable_path (current_kubeconfig e) of
                 Some p \<Rightarrow> Some p
               | None \<Rightarrow> usable_path (temp_kubeconfig e)) of
           None \<Rightarrow> PDict []
         | Some kubeconfig_path \<Rightarrow>
             (let secret_metadata =
                    get_helm_release_secret_metadata e (release_name fleet_config)
                      (PStr (namespace fleet_config)) kubeconfig_path
              in if truthy secret_metadata then secret_metadata else PDict []))
      else PDict [])"

text \<open>
  \<^verbatim>\<open>helm_config["version"] = v\<close>: the entry is replaced in place (the key is always there).
\<close>

definition set_version :: "pyval \<Rightarrow> (string \<times> pyval) list \<Rightarrow> (string \<times> pyval) list" where
  "set_version v kvs = map (\<lambda>(k, old). if k = ''version'' then (k, v) else (k, old)) kvs"

text \<open>
  Lines 1173-1185: the comment lines, and the helm section with its version replaced by
  the metadata's when the config has none or \<^verbatim>\<open>"latest"\<close>. \<open>None\<close> when \<^verbatim>\<open>chart_metadata.get\<close>
  raises.
\<close>

definition apply_chart_metadata ::
  "env \<Rightarrow> FleetConfig \<Rightarrow> pyval \<Rightarrow> (string list \<times> (string \<times> pyval) list) option" where
  "apply_chart_metadata e fleet_config metadata =
     (if truthy metadata then
        do {
          n \<leftarrow> py_get metadata ''name'' PNone;
          v \<leftarrow> py_get metadata ''version'' PNone;
          a \<leftarrow> py_get metadata ''appVersion'' PNone;
          d \<leftarrow> py_get metadata ''description'' PNone;
          Some ((if truthy n then [''# Chart Name: '' @ py_str e n] else []) @
                (if truthy v then [''# Chart Version: '' @ py_str e v] else []) @
                (if truthy a then [''# App Version: '' @ py_str e a] else []) @
                (if truthy d then [''# Description: '' @ py_str e d] else []),
                if truthy v \<and> (\<not> truthy (chart_version fleet_config)
                                \<or> chart_version fleet_config = PStr ''latest'')
                then set_version v (helm_config fleet_config)
                else helm_config fleet_config)
        }
      else Some ([], helm_config fleet_config))"

text \<open>Lines 1187-1204: the comment lines and the object handed to \<^verbatim>\<open>yaml.dump\<close>.\<close>

definition fleet_content :: "env \<Rightarrow> FleetConfig \<Rightarrow> (string list \<times> pyval) option" where
  "fleet_content e fleet_config =
     (case apply_chart_metadata e fleet_config (effective_chart_metadata e fleet_config) of
        None \<Rightarrow> None
      | Some (metadata_comments, helm_section) \<Rightarrow>
          Some (metadata_comments,
                PDict ([(''defaultNamespace'', PStr (namespace fleet_config)),
                        (''helm'', PDict helm_section)] @
                       (if target_cluster fleet_config \<noteq> [] then
                          [(''targets'',
                            PList [PDict [(''name'', PStr (target_cluster fleet_config)),
                                          (''clusterSelector'',
                                           PDict [(''matchLabels'',
                                                   PDict [(''management.cattle.io/cluster-name'',
                                                           PStr (target_cluster fleet_config))])])]])]
                        else []) @
                       [(''rolloutStrategy'', rollout_strategy (fleet_yaml_config fleet_config))])))"

text \<open>\<^verbatim>\<open>"\n".join(lines)\<close>.\<close>

fun join_lines :: "string list \<Rightarrow> string" where
  "join_lines [] = []"
| "join_lines [l] = l"
| "join_lines (l # ls) = l @ ''\<newline>'' @ join_lines ls"

text \<open>The whole function: the empty string when the body raises.\<close>

definition generate_fleet_yaml :: "env \<Rightarrow> FleetConfig \<Rightarrow> string" where
  "generate_fleet_yaml e fleet_config =
     (case fleet_content e fleet_config of
        None \<Rightarrow> []
      | Some (metadata_comments, content) \<Rightarrow>
          (if metadata_comments \<noteq> []
           then join_lines metadata_comments @ ''\<newline>---\<newline>'' @ yaml_dump e content
           else yaml_dump e content))"

text \<open>The version entry of the helm section of a manifest object.\<close>

definition helm_version :: "pyval \<Rightarrow> pyval option" where
  "helm_version content = do { h \<leftarrow> py_get content ''helm'' PNone; py_get h ''version'' PNone }"

section \<open>Configuration resolver (screens.py, generate_configuration)\<close>

datatype source_mode = Repository | Cluster

text \<open>
  The part of the screen the method reads and writes: the selection, the config under
  construction, the notifications shown (message and severity, oldest first), the preview,
  and the files written to disk, keyed by their path components.
\<close>

record screen =
  chart_source_mode :: source_mode
  selected_chart :: "string option"
  selected_namespace :: "string option"
  selected_release :: "HelmRelease option"
  current_config :: FleetConfig
  notifications :: "(string \<times> string) list"
  preview_content :: string
  files :: "string list \<Rightarrow> string option"

text \<open>The values of the form widgets the method queries.\<close>

record form =
  app_name_value :: string
  target_cluster_value :: string
  default_namespace_value :: string
  chart_values_text :: string

text \<open>
  What \<^verbatim>\<open>get_current_rancher_context()\<close>, \<^verbatim>\<open>get_apps_dir()\<close> and \<^verbatim>\<open>get_int_dir()\<close> return.
\<close>

record site =
  cluster_id :: "string option"
  cluster_name :: "string option"
  apps_dir :: "string list"
  int_dir :: "string list"

definition notify :: "string \<Rightarrow> string \<Rightarrow> screen \<Rightarrow> screen" where
  "notify message severity s = s\<lparr>notifications := notifications s @ [(message, severity)]\<rparr>"

definition write_text :: "string list \<Rightarrow> string \<Rightarrow> screen \<Rightarrow> screen" where
  "write_text path content s = s\<lparr>files := (files s)(path \<mapsto> content)\<rparr>"

text \<open>
  Lines 1634-1710: the fields taken from the selection. \<open>Inl\<close> the message of a failed
  validation.
\<close>

definition select_chart :: "form \<Rightarrow> screen \<Rightarrow> string + FleetConfig" where
  "select_chart f s =
     (let c = current_config s in
      case chart_source_mode s of
        Repository \<Rightarrow>
          (case usable_path (selected_chart s) of
             None \<Rightarrow> Inl ''Please select a chart from the repository first''
           | Some chart \<Rightarrow>
               Inr (c\<lparr>app_name := app_name_value f,
                      chart_name := PStr chart,
                      chart_version := PStr ''latest'',
                      helm_repo := EEA_HELM_REPO,
                      target_cluster := target_cluster_value f,
                      namespace := (if default_namespace_value f \<noteq> []
                                    then default_namespace_value f else app_name_value f)\<rparr>))
      | Cluster \<Rightarrow>
          (case usable_path (selected_namespace s) of
             None \<Rightarrow> Inl ''Please select a namespace first''
           | Some ns \<Rightarrow>
               (case selected_release s of
                  None \<Rightarrow> Inl ''Please select a Helm release first''
                | Some r \<Rightarrow>
                    Inr (c\<lparr>app_name := app_name_value f,
                           namespace := ns,
                           chart_name := rel_chart r,
                           chart_version := py_or (rel_chart_version r) (PStr ''latest''),
                           target_cluster := target_cluster_value f,
                           is_existing_release := True,
                           release_name := rel_name r,
                           chart_metadata :=
                             PDict [(''name'', rel_chart r),
                                    (''version'', rel_chart_version r),
                                    (''appVersion'', rel_app_version r)]\<rparr>))))"

text \<open>The message of the TypeError that \<^verbatim>\<open>len(v)\<close> raises.\<close>

definition no_len_message :: "string \<Rightarrow> string" where
  "no_len_message type_name =
     ''object of type '' @ [CHR 0x27] @ type_name @ [CHR 0x27] @ '' has no len()''"

text \<open>
  Lines 1713-1723: the values of the text area. \<open>Inl\<close> the message of the exception and
  the value the field holds then: \<^verbatim>\<open>yaml.safe_load\<close> raises before the assignment, \<^verbatim>\<open>len\<close> in
  the log line after it.
\<close>

definition parse_values :: "env \<Rightarrow> string \<Rightarrow> pyval \<Rightarrow> string \<times> pyval + pyval" where
  "parse_values e values_text old_values =
     (case yaml_safe_load e values_text of
        Inl message \<Rightarrow> Inl (message, old_values)
      | Inr loaded \<Rightarrow>
          (let v = py_or loaded (PDict []) in
           case v of
             PInt n \<Rightarrow> Inl (no_len_message ''int'', v)
           | PBool b \<Rightarrow> Inl (no_len_message ''bool'', v)
           | PNone \<Rightarrow> Inl (no_len_message ''NoneType'', v)
           | other \<Rightarrow> Inr v))"

text \<open>Lines 1729-1730.\<close>

definition cluster_folder :: "site \<Rightarrow> string" where
  "cluster_folder w =
     replace
       (replace
          (case usable_path (cluster_name w) of
             Some n \<Rightarrow> n
           | None \<Rightarrow> (case usable_path (cluster_id w) of Some i \<Rightarrow> i | None \<Rightarrow> ''default''))
          (CHR ''/'') (CHR ''-''))
       (CHR ''_'') (CHR ''-'')"

text \<open>Lines 1733-1736.\<close>

definition app_dir_name :: "env \<Rightarrow> FleetConfig \<Rightarrow> string" where
  "app_dir_name e c =
     replace (replace (namespace c @ ''-'' @ py_str e (chart_name c)) (CHR ''/'') (CHR ''-''))
       (CHR ''_'') (CHR ''-'')"

text \<open>Lines 1773-1782: the closing notification.\<close>

definition success_message :: "env \<Rightarrow> screen \<Rightarrow> string" where
  "success_message e s =
     (case chart_source_mode s of
        Repository \<Rightarrow>
          ''Configuration generated for chart '' @ [CHR 0x27] @
          (case selected_chart s of Some c \<Rightarrow> c | None \<Rightarrow> ''None'') @
          [CHR 0x27] @ '' from repository''
      | Cluster \<Rightarrow>
          (case selected_release s of
             Some r \<Rightarrow>
               ''Configuration generated for release '' @ [CHR 0x27] @ py_str e (rel_name r) @
               [CHR 0x27] @ '' ('' @ py_str e (rel_chart r) @ '')''
           | None \<Rightarrow> []))"

text \<open>Lines 1725-1782: everything after the values were parsed.\<close>

definition write_artifacts :: "env \<Rightarrow> site \<Rightarrow> screen \<Rightarrow> screen" where
  "write_artifacts e w s =
     (let folder = cluster_folder w;
          dir_name = app_dir_name e (current_config s);
          s1 = s\<lparr>current_config := (current_config s)\<lparr>app_name := dir_name\<rparr>\<rparr>;
          fleet_yaml = generate_fleet_yaml e (current_config s1);
          values_yaml = generate_values_yaml e (current_config s1);
          configmap_yaml = generate_configmap_yaml e (current_config s1);
          s2 = write_text (apps_dir w @ [folder, dir_name, ''fleet.yaml'']) fleet_yaml s1;
          s3 = write_text (int_dir w @ [folder, dir_name, dir_name @ ''-configmap.yaml''])
                 configmap_yaml s2;
          s4 = s3\<lparr>preview_content :=
                    ''# fleet.yaml\<newline>'' @ fleet_yaml @
                    ''\<newline>\<newline># values.yaml\<newline>'' @ values_yaml\<rparr>
      in notify (success_message e s4) ''success'' s4)"

text \<open>The whole method.\<close>

definition generate_configuration :: "env \<Rightarrow> site \<Rightarrow> form \<Rightarrow> screen \<Rightarrow> screen" where
  "generate_configuration e w f s =
     (if app_name_value f = [] then notify ''Please enter an application name'' ''error'' s
      else
        (case select_chart f s of
           Inl message \<Rightarrow> notify message ''error'' s
         | Inr c \<Rightarrow>
             (case parse_values e (chart_values_text f) (config_values c) of
                Inl (message, v) \<Rightarrow>
                  notify (''Error parsing values: '' @ message) ''error''
                    (s\<lparr>current_config := c\<lparr>config_values := v\<rparr>\<rparr>)
              | Inr v \<Rightarrow> write_artifacts e w (s\<lparr>current_config := c\<lparr>config_values := v\<rparr>\<rparr>))))"

section \<open>Release payloads as the package manager writes them\<close>

text \<open>
  The encoders that pair with the decoders of \<open>env\<close>: \<^verbatim>\<open>base64.b64encode\<close> (as text),
  \<^verbatim>\<open>str.encode('utf-8')\<close>, \<^verbatim>\<open>gzip.compress\<close> and \<^verbatim>\<open>json.dumps\<close>. The repository only decodes;
  the payload format below follows the specification of the decoder's input.
\<close>

record codec =
  b64encode :: "bytes \<Rightarrow> string"
  utf8_encode :: "string \<Rightarrow> bytes"
  gzip_compress :: "bytes \<Rightarrow> bytes"
  dumps :: "pyval \<Rightarrow> string"

text \<open>A metadata object with the four fields.\<close>

definition metadata_object :: "pyval \<Rightarrow> pyval \<Rightarrow> pyval \<Rightarrow> pyval \<Rightarrow> pyval" where
  "metadata_object n v a d =
     PDict [(''name'', n), (''version'', v), (''appVersion'', a), (''description'', d)]"

text \<open>The release document: JSON with the metadata object under \<^verbatim>\<open>chart.metadata\<close>.\<close>

definition release_document :: "pyval \<Rightarrow> pyval" where
  "release_document metadata = PDict [(''chart'', PDict [(''metadata'', metadata)])]"

text \<open>The inner base64 text: the gzip-compressed release document.\<close>

definition inner_text :: "codec \<Rightarrow> pyval \<Rightarrow> string" where
  "inner_text c metadata =
     b64encode c (gzip_compress c (utf8_encode c (dumps c (release_document metadata))))"

text \<open>The text that is base64-encoded again: the inner text, optionally in double quotes.\<close>

definition wrapped_text :: "codec \<Rightarrow> bool \<Rightarrow> pyval \<Rightarrow> string" where
  "wrapped_text c quoted metadata =
     (if quoted then [CHR 0x22] @ inner_text c metadata @ [CHR 0x22] else inner_text c metadata)"

text \<open>The value of the secret's \<^verbatim>\<open>data.release\<close> field.\<close>

definition encode_release :: "codec \<Rightarrow> bool \<Rightarrow> pyval \<Rightarrow> string" where
  "encode_release c quoted metadata = b64encode c (utf8_encode c (wrapped_text c quoted metadata))"

definition secret_document :: "string \<Rightarrow> pyval" where
  "secret_document payload = PDict [(''data'', PDict [(''release'', PStr payload)])]"

text \<open>
  The decoders of \<open>e\<close> invert the encoders of \<open>c\<close> on the data of this payload, and the
  base64 text is what base64 text is: free of double quotes, and not empty.
\<close>

definition decoders_invert :: "env \<Rightarrow> codec \<Rightarrow> bool \<Rightarrow> pyval \<Rightarrow> bool" where
  "decoders_invert e c quoted metadata =
     (let text = dumps c (release_document metadata);
          raw = utf8_encode c text;
          compressed = gzip_compress c raw;
          inner = b64encode c compressed;
          wrapped = wrapped_text c quoted metadata;
          payload = b64encode c (utf8_encode c wrapped)
      in json_loads e text = Some (release_document metadata)
         \<and> utf8_decode e raw = Some text
         \<and> gzip_decompress e compressed = Some raw
         \<and> b64decode e inner = Some compressed
         \<and> CHR 0x22 \<notin> set inner
         \<and> utf8_decode e (utf8_encode c wrapped) = Some wrapped
         \<and> b64decode e payload = Some (utf8_encode c wrapped)
         \<and> payload \<noteq> [])"

section \<open>What the decoder's callers can observe\<close>

text \<open>
  A metadata record with all fields empty, as its readers read it
  (\<^verbatim>\<open>m.get(k, "")\<close> for each of the four fields).
\<close>

definition all_fields_empty :: "pyval \<Rightarrow> bool" where
  "all_fields_empty m =
     list_all (\<lambda>k. py_get m k (PStr []) = Some (PStr []))
       [''name'', ''version'', ''appVersion'', ''description'']"

text \<open>
  Every stage of the pipeline succeeds, and ends in the metadata object \<open>md\<close>: the secret is
  fetched and parses, its \<^verbatim>\<open>data.release\<close> is a string that base64-decodes to text, the
  text (without surrounding quotes) base64-decodes to a gzip stream, the stream
  decompresses to text that parses as JSON, and \<^verbatim>\<open>chart.metadata\<close> of that JSON is an object.
\<close>

definition all_stages_succeed :: "env \<Rightarrow> pyval \<Rightarrow> pyval \<Rightarrow> (string \<times> pyval) list \<Rightarrow> bool" where
  "all_stages_succeed e release ns md =
     (\<exists>output secret_data data_section payload raw_once decoded_once decoded_twice raw_json
        decompressed release_json chart_section.
        run_rancher_command e (kubectl_args e release ns) = (True, output)
        \<and> json_loads e output = Some secret_data
        \<and> py_get secret_data ''data'' (PDict []) = Some data_section
        \<and> py_get data_section ''release'' (PStr []) = Some (PStr payload)
        \<and> b64decode e payload = Some raw_once
        \<and> utf8_decode e raw_once = Some decoded_once
        \<and> b64decode e (strip_quotes decoded_once) = Some decoded_twice
        \<and> gzip_decompress e decoded_twice = Some raw_json
        \<and> utf8_decode e raw_json = Some decompressed
        \<and> json_loads e decompressed = Some release_json
        \<and> py_get release_json ''chart'' (PDict []) = Some (PDict chart_section)
        \<and> map_of chart_section ''metadata'' = Some (PDict md))"

section \<open>Sample collaborators and inputs for the examples\<close>

text \<open>
  A small stand-in for base64: two letters \<^verbatim>\<open>a\<close>..\<^verbatim>\<open>p\<close> per byte. Like base64 it is
  invertible, its alphabet has no double quote, and decoding fails on other text.
\<close>

definition sample_b64encode :: "bytes \<Rightarrow> string" where
  "sample_b64encode bs = concat (map (\<lambda>b. [char_of (97 + b div 16), char_of (97 + b mod 16)]) bs)"

definition sample_digit :: "char \<Rightarrow> nat option" where
  "sample_digit ch =
     (let n = (of_char ch :: nat) in if 97 \<le> n \<and> n < 113 then Some (n - 97) else None)"

fun sample_b64decode :: "string \<Rightarrow> bytes option" where
  "sample_b64decode [] = Some []"
| "sample_b64decode [ch] = None"
| "sample_b64decode (hi # lo # rest) =
     (case (sample_digit hi, sample_digit lo, sample_b64decode rest) of
        (Some h, Some l, Some bs) \<Rightarrow> Some ((h * 16 + l) # bs)
      | other \<Rightarrow> None)"

text \<open>A stand-in for gzip: the two magic bytes, then the data.\<close>

fun sample_gunzip :: "bytes \<Rightarrow> bytes option" where
  "sample_gunzip (b1 # b2 # rest) = (if b1 = 31 \<and> b2 = 139 then Some rest else None)"
| "sample_gunzip bs = None"

text \<open>UTF-8 on ASCII text.\<close>

definition sample_utf8_decode :: "bytes \<Rightarrow> string option" where
  "sample_utf8_decode bs = (if list_all (\<lambda>b. b < 128) bs then Some (map char_of bs) else None)"

definition sample_codec :: codec where
  "sample_codec =
     \<lparr>b64encode = sample_b64encode,
      utf8_encode = map of_char,
      gzip_compress = (\<lambda>bs. 31 # 139 # bs),
      dumps = (\<lambda>v. ''RELEASE'')\<rparr>"

definition sample_metadata :: pyval where
  "sample_metadata =
     metadata_object (PStr ''nginx'') (PStr ''9.9.9'') (PStr ''1.25'') (PStr ''web server'')"

definition sample_item :: pyval where
  "sample_item =
     PDict [(''name'', PStr ''web''), (''namespace'', PStr ''prod''), (''revision'', PStr ''3''),
            (''status'', PStr ''deployed''), (''chart'', PStr ''nginx-1.2.0'')]"

text \<open>
  The command outputs are short tokens; \<open>json_loads\<close> maps each token to the document
  it stands for. The release \<^verbatim>\<open>web\<close> in namespace \<^verbatim>\<open>prod\<close> is listed with chart version
  \<^verbatim>\<open>1.2.0\<close> and no app version; its secret holds \<open>sample_metadata\<close>, quoted. The secret of
  release \<^verbatim>\<open>api\<close> holds the same without the quotes, and that of release \<^verbatim>\<open>broken\<close> holds
  three bytes that are not a gzip stream.
\<close>

definition sample_env :: env where
  "sample_env =
     \<lparr>run_rancher_command =
        (\<lambda>args. if args = [PStr ''kubectl'', PStr ''get'', PStr ''secret'',
                             PStr ''sh.helm.release.v1.web.v1'', PStr ''-n'', PStr ''prod'',
                             PStr ''-o'', PStr ''json'']
                 then (True, ''SECRET'')
                 else if args = [PStr ''kubectl'', PStr ''get'', PStr ''secret'',
                                  PStr ''sh.helm.release.v1.api.v1'', PStr ''-n'', PStr ''prod'',
                                  PStr ''-o'', PStr ''json'']
                 then (True, ''SECRET-PLAIN'')
                 else if args = [PStr ''kubectl'', PStr ''get'', PStr ''secret'',
                                  PStr ''sh.helm.release.v1.broken.v1'', PStr ''-n'', PStr ''prod'',
                                  PStr ''-o'', PStr ''json'']
                 then (True, ''SECRET-BROKEN'')
                 else (False, ''not found'')),
      run_helm_with_kubeconfig =
        (\<lambda>args path. if args = [PStr ''get'', PStr ''metadata'', PStr ''web'', PStr ''-n'',
                                  PStr ''prod'', PStr ''--output'', PStr ''json'']
                      then (True, ''METADATA'')
                      else if args = [PStr ''list'', PStr ''--output'', PStr ''json'',
                                       PStr ''--all-namespaces'']
                      then (True, ''LIST'')
                      else (False, ''unknown command'')),
      run_helm_command = (\<lambda>args. (False, ''repository unreachable'')),
      json_loads =
        (\<lambda>text. if text = ''SECRET''
                    then Some (secret_document (encode_release sample_codec True sample_metadata))
                  else if text = ''SECRET-PLAIN''
                    then Some (secret_document (encode_release sample_codec False sample_metadata))
                  else if text = ''SECRET-BROKEN''
                    then Some (secret_document
                                 (sample_b64encode (map of_char (sample_b64encode [1, 2, 3]))))
                  else if text = ''RELEASE'' then Some (release_document sample_metadata)
                  else if text = ''LIST'' then Some (PList [sample_item])
                  else if text = ''METADATA''
                    then Some (PDict [(''chart'', PStr ''nginx''), (''version'', PStr ''1.2.0''),
                                      (''appVersion'', PStr [])])
                  else if text = ''CACHE''
                    then Some (PDict [(''charts'', PList [PStr ''redis'', PStr ''volto'']),
                                      (''timestamp'', PStr ''T1000''),
                                      (''version'', PStr ''1.0'')])
                  else if text = ''CACHE-TWICE''
                    then Some (PDict [(''charts'', PList [PStr ''volto'', PStr ''volto'']),
                                      (''timestamp'', PStr ''T1000''),
                                      (''version'', PStr ''1.0'')])
                  else None),
      json_dumps = (\<lambda>v. ''CACHE''),
      b64decode = sample_b64decode,
      utf8_decode = sample_utf8_decode,
      gzip_decompress = sample_gunzip,
      yaml_dump = (\<lambda>v. ''YAML''),
      yaml_safe_load =
        (\<lambda>text. if text = [] then Inr PNone
                  else if text = ''replicaCount: 3'' then Inr (PDict [(''replicaCount'', PInt 3)])
                  else Inl ''mapping values are not allowed here''),
      py_repr = (\<lambda>v. ''?''),
      fromisoformat = (\<lambda>text. if text = ''T1000'' then Some (Naive 1000) else None),
      isoformat = (\<lambda>t. ''T''),
      current_kubeconfig = Some ''/tmp/kubeconfig'',
      temp_kubeconfig = None,
      disk_writable = True\<rparr>"

definition sample_config :: FleetConfig where
  "sample_config =
     \<lparr>app_name = [], namespace = [], chart_name = PStr [], chart_version = PStr [],
      helm_repo = EEA_HELM_REPO, config_values = PDict [], cluster_values = PDict [],
      dependencies = [], target_cluster = [], is_existing_release = False,
      release_name = PStr [], chart_metadata = PDict [],
      fleet_yaml_config =
        \<lparr>rollout_strategy =
           PDict [(''maxUnavailable'', PStr ''25%''), (''maxUnavailablePartitions'', PStr ''0''),
                  (''autoPartitionSize'', PStr ''10%'')]\<rparr>\<rparr>"

definition sample_screen :: screen where
  "sample_screen =
     \<lparr>chart_source_mode = Repository, selected_chart = Some ''my_chart/x'',
      selected_namespace = None, selected_release = None, current_config = sample_config,
      notifications = [], preview_content = [], files = Map.empty\<rparr>"

definition sample_form :: form where
  "sample_form =
     \<lparr>app_name_value = ''demo'', target_cluster_value = [], default_namespace_value = ''prod'',
      chart_values_text = ''replicaCount: 3''\<rparr>"

definition sample_site :: site where
  "sample_site =
     \<lparr>cluster_id = Some ''c-m-1234'', cluster_name = Some ''test_cluster'',
      apps_dir = [''apps''], int_dir = [''int'']\<rparr>"

definition sample_cache :: cache_state where
  "sample_cache =
     \<lparr>cached_charts = PList [], charts_cache_timestamp = None,
      charts_cache_file = Some ''CACHE'', helm_calls = []\<rparr>"


section \<open>Finalization of the application name\<close>

lemma replace_both:
  "replace (replace s (CHR ''/'') (CHR ''-'')) (CHR ''_'') (CHR ''-'')
     = map (\<lambda>x. if x = CHR ''/'' \<or> x = CHR ''_'' then CHR ''-'' else x) s"
  by (simp add: replace_def)

lemma write_artifacts_config:
  "current_config (write_artifacts e w s)
     = (current_config s)\<lparr>app_name := app_dir_name e (current_config s)\<rparr>"
  by (simp add: write_artifacts_def Let_def notify_def write_text_def)

lemma sample_select_chart:
  "select_chart sample_form sample_screen
     = Inr (sample_config\<lparr>app_name := ''demo'', chart_name := PStr ''my_chart/x'',
              chart_version := PStr ''latest'', helm_repo := EEA_HELM_REPO,
              target_cluster := [], namespace := ''prod''\<rparr>)"
  by (simp add: select_chart_def sample_form_def sample_screen_def)

text \<open>
  C4. Whenever generation gets past validation and parsing, with namespace \<open>ns\<close> and
  the chart name the string \<open>chart\<close>, the finalized \<open>app_name\<close> is \<open>ns-chart\<close> with every
  \<^verbatim>\<open>/\<close> and every \<^verbatim>\<open>_\<close> replaced by \<^verbatim>\<open>-\<close>; namespace and chart name are left as they were.
\<close>

theorem finalized_app_name:
  assumes "app_name_value f \<noteq> []"
    and "select_chart f s = Inr c"
    and "parse_values e (chart_values_text f) (config_values c) = Inr v"
    and "namespace c = ns"
    and "chart_name c = PStr chart"
  shows "app_name (current_config (generate_configuration e w f s))
           = map (\<lambda>x. if x = CHR ''/'' \<or> x = CHR ''_'' then CHR ''-'' else x)
               (ns @ ''-'' @ chart)
         \<and> namespace (current_config (generate_configuration e w f s)) = ns
         \<and> chart_name (current_config (generate_configuration e w f s)) = PStr chart"
  using assms
  by (simp add: generate_configuration_def write_artifacts_config app_dir_name_def replace_both)

text \<open>
  The example of the claim: namespace \<^verbatim>\<open>prod\<close> and chart \<^verbatim>\<open>my_chart/x\<close> give
  \<^verbatim>\<open>prod-my-chart-x\<close>.
\<close>

theorem finalized_app_name_witness:
  "app_name_value sample_form \<noteq> []
   \<and> select_chart sample_form sample_screen
       = Inr (sample_config\<lparr>app_name := ''demo'', chart_name := PStr ''my_chart/x'',
                chart_version := PStr ''latest'', helm_repo := EEA_HELM_REPO,
                target_cluster := [], namespace := ''prod''\<rparr>)
   \<and> parse_values sample_env (chart_values_text sample_form) (PDict [])
       = Inr (PDict [(''replicaCount'', PInt 3)])
   \<and> app_name (current_config
        (generate_configuration sample_env sample_site sample_form sample_screen))
       = ''prod-my-chart-x''"
proof -
  have a: "app_name_value sample_form \<noteq> []" by (simp add: sample_form_def)
  have c: "parse_values sample_env (chart_values_text sample_form) (PDict [])
       = Inr (PDict [(''replicaCount'', PInt 3)])"
    by (simp add: parse_values_def sample_form_def sample_env_def py_or_def)
  have c': "parse_values sample_env (chart_values_text sample_form)
       (config_values (sample_config\<lparr>app_name := ''demo'', chart_name := PStr ''my_chart/x'',
                chart_version := PStr ''latest'', helm_repo := EEA_HELM_REPO,
                target_cluster := [], namespace := ''prod''\<rparr>))
       = Inr (PDict [(''replicaCount'', PInt 3)])"
    using c by (simp add: sample_config_def)
  from finalized_app_name [OF a sample_select_chart c', of "''prod''" "''my_chart/x''" sample_site]
  show ?thesis using a sample_select_chart c by simp
qed

section \<open>The config object and the values document\<close>

text \<open>
  C9. The rendered config object is the YAML of an object whose \<^verbatim>\<open>data\<close> has exactly one
  key, \<^verbatim>\<open>values.yaml\<close>, holding the rendered values document; and the values document is
  the YAML of \<open>config_values\<close> when that is non-empty, otherwise the default template
  with the chart name filled in.
\<close>

theorem config_object_single_key:
  "generate_configmap_yaml e cfg = yaml_dump e (configmap e cfg)
   \<and> (\<exists>data. py_get (configmap e cfg) ''data'' PNone = Some data
        \<and> py_keys data = Some [''values.yaml'']
        \<and> py_get data ''values.yaml'' PNone = Some (PStr (generate_values_yaml e cfg)))
   \<and> (truthy (config_values cfg)
        \<longrightarrow> generate_values_yaml e cfg = yaml_dump e (config_values cfg))
   \<and> (\<not> truthy (config_values cfg)
        \<longrightarrow> generate_values_yaml e cfg = DEFAULT_VALUES_TEMPLATE (py_str e (chart_name cfg)))"
  by (simp add: generate_configmap_yaml_def configmap_def generate_values_yaml_def py_or_def)

theorem config_object_single_key_witness:
  "truthy (config_values (sample_config\<lparr>config_values := PDict [(''replicaCount'', PInt 3)]\<rparr>))
   \<and> generate_values_yaml sample_env
        (sample_config\<lparr>config_values := PDict [(''replicaCount'', PInt 3)]\<rparr>)
       = yaml_dump sample_env (PDict [(''replicaCount'', PInt 3)])
   \<and> \<not> truthy (config_values (sample_config\<lparr>chart_name := PStr ''postgres''\<rparr>))
   \<and> generate_values_yaml sample_env (sample_config\<lparr>chart_name := PStr ''postgres''\<rparr>)
       = DEFAULT_VALUES_TEMPLATE ''postgres''"
  using config_object_single_key
          [of sample_env "sample_config\<lparr>config_values := PDict [(''replicaCount'', PInt 3)]\<rparr>"]
        config_object_single_key [of sample_env "sample_config\<lparr>chart_name := PStr ''postgres''\<rparr>"]
  by (simp add: sample_config_def)

section \<open>The version of the bundle manifest\<close>

lemma helm_version_content:
  "helm_version (PDict ((''defaultNamespace'', a) # (''helm'', PDict h) # rest))
     = Some (case map_of h ''version'' of None \<Rightarrow> PNone | Some v \<Rightarrow> v)"
  by (simp add: helm_version_def)

lemma map_of_helm_config:
  "map_of (helm_config cfg) ''version'' = Some (py_or (chart_version cfg) (PStr ''latest''))"
  by (simp add: helm_config_def)

lemma map_of_set_version:
  "map_of (set_version v (helm_config cfg)) ''version'' = Some v"
  by (simp add: helm_config_def set_version_def)

lemma apply_chart_metadata_dict:
  "apply_chart_metadata e cfg (PDict md) = Some (cs, h) \<Longrightarrow>
     map_of h ''version''
       = Some (let v = (case map_of md ''version'' of None \<Rightarrow> PNone | Some x \<Rightarrow> x)
               in if md \<noteq> [] \<and> truthy v
                     \<and> (\<not> truthy (chart_version cfg) \<or> chart_version cfg = PStr ''latest'')
                  then v else py_or (chart_version cfg) (PStr ''latest''))"
  by (auto simp add: apply_chart_metadata_def Let_def map_of_helm_config map_of_set_version
      split: if_splits)

lemma apply_chart_metadata_keeps:
  assumes "apply_chart_metadata e cfg m = Some (cs, h)"
    and "truthy (chart_version cfg)" and "chart_version cfg \<noteq> PStr ''latest''"
  shows "map_of h ''version'' = Some (chart_version cfg)"
proof (cases m)
  case (PDict md)
  from apply_chart_metadata_dict [OF assms(1) [unfolded PDict]] assms(2,3)
  show ?thesis by (simp add: py_or_def Let_def)
qed (use assms in \<open>auto simp add: apply_chart_metadata_def map_of_helm_config py_or_def
       split: if_splits\<close>)

lemma apply_chart_metadata_total:
  "\<exists>cs h. apply_chart_metadata e cfg (PDict md) = Some (cs, h)"
  by (simp add: apply_chart_metadata_def)

lemma fleet_content_helm:
  assumes "fleet_content e cfg = Some (comments, content)"
  shows "\<exists>h. apply_chart_metadata e cfg (effective_chart_metadata e cfg) = Some (comments, h)
              \<and> helm_version content
                  = Some (case map_of h ''version'' of None \<Rightarrow> PNone | Some v \<Rightarrow> v)"
  using assms
  by (auto simp add: fleet_content_def helm_version_content split: option.splits prod.splits)

text \<open>
  C5. When the metadata in effect is an object with a non-empty version and the config's
  chart version is empty or \<^verbatim>\<open>latest\<close>, a manifest is rendered and its helm version is the
  metadata's version. When the config's chart version is any other non-empty value,
  every rendered manifest keeps it.
\<close>

theorem manifest_version:
  "(effective_chart_metadata e cfg = PDict md \<and> map_of md ''version'' = Some v \<and> truthy v
      \<and> (\<not> truthy (chart_version cfg) \<or> chart_version cfg = PStr ''latest'')
    \<longrightarrow> (\<exists>comments content. fleet_content e cfg = Some (comments, content)
           \<and> helm_version content = Some v))
   \<and> (truthy (chart_version cfg) \<and> chart_version cfg \<noteq> PStr ''latest''
        \<and> fleet_content e cfg = Some (comments, content)
      \<longrightarrow> helm_version content = Some (chart_version cfg))"
proof (intro conjI impI)
  assume a: "effective_chart_metadata e cfg = PDict md \<and> map_of md ''version'' = Some v
      \<and> truthy v \<and> (\<not> truthy (chart_version cfg) \<or> chart_version cfg = PStr ''latest'')"
  then have ne: "md \<noteq> []" by auto
  obtain cs h where ap: "apply_chart_metadata e cfg (PDict md) = Some (cs, h)"
    using apply_chart_metadata_total by blast
  from apply_chart_metadata_dict [OF ap] a ne have "map_of h ''version'' = Some v"
    by (simp add: Let_def)
  with ap a show "\<exists>comments content. fleet_content e cfg = Some (comments, content)
           \<and> helm_version content = Some v"
    by (simp add: fleet_content_def helm_version_content)
next
  assume b: "truthy (chart_version cfg) \<and> chart_version cfg \<noteq> PStr ''latest''
        \<and> fleet_content e cfg = Some (comments, content)"
  then obtain h where
    ap: "apply_chart_metadata e cfg (effective_chart_metadata e cfg) = Some (comments, h)"
    and hv: "helm_version content
               = Some (case map_of h ''version'' of None \<Rightarrow> PNone | Some v \<Rightarrow> v)"
    using fleet_content_helm by blast
  from apply_chart_metadata_keeps [OF ap] b have "map_of h ''version'' = Some (chart_version cfg)"
    by simp
  with hv show "helm_version content = Some (chart_version cfg)" by simp
qed

lemma sample_effective_metadata:
  "effective_chart_metadata e (sample_config\<lparr>chart_metadata := sample_metadata, chart_version := cv\<rparr>)
     = PDict [(''name'', PStr ''nginx''), (''version'', PStr ''9.9.9''),
              (''appVersion'', PStr ''1.25''), (''description'', PStr ''web server'')]"
  by (simp add: effective_chart_metadata_def sample_metadata_def metadata_object_def)

lemma sample_fleet_content:
  "fleet_content e (sample_config\<lparr>chart_metadata := sample_metadata, chart_version := cv\<rparr>) \<noteq> None"
proof -
  obtain cs h where
    "apply_chart_metadata e
       (sample_config\<lparr>chart_metadata := sample_metadata, chart_version := cv\<rparr>)
       (PDict [(''name'', PStr ''nginx''), (''version'', PStr ''9.9.9''),
               (''appVersion'', PStr ''1.25''), (''description'', PStr ''web server'')])
     = Some (cs, h)"
    using apply_chart_metadata_total by blast
  then show ?thesis by (simp add: fleet_content_def sample_effective_metadata)
qed

text \<open>
  A config with chart version \<^verbatim>\<open>latest\<close> and metadata version \<^verbatim>\<open>9.9.9\<close> renders \<^verbatim>\<open>9.9.9\<close>; the
  same config with chart version \<^verbatim>\<open>1.2.0\<close> renders \<^verbatim>\<open>1.2.0\<close>.
\<close>

theorem manifest_version_witness:
  "(\<exists>comments content.
      fleet_content sample_env
        (sample_config\<lparr>chart_metadata := sample_metadata, chart_version := PStr ''latest''\<rparr>)
        = Some (comments, content)
      \<and> helm_version content = Some (PStr ''9.9.9''))
   \<and> fleet_content sample_env
        (sample_config\<lparr>chart_metadata := sample_metadata, chart_version := PStr ''1.2.0''\<rparr>)
       \<noteq> None
   \<and> helm_version (snd (the (fleet_content sample_env
        (sample_config\<lparr>chart_metadata := sample_metadata, chart_version := PStr ''1.2.0''\<rparr>))))
       = Some (PStr ''1.2.0'')"
proof -
  let ?a = "sample_config\<lparr>chart_metadata := sample_metadata, chart_version := PStr ''latest''\<rparr>"
  let ?b = "sample_config\<lparr>chart_metadata := sample_metadata, chart_version := PStr ''1.2.0''\<rparr>"
  have ne: "fleet_content sample_env ?b \<noteq> None" by (rule sample_fleet_content)
  then have eq: "fleet_content sample_env ?b
                   = Some (fst (the (fleet_content sample_env ?b)),
                           snd (the (fleet_content sample_env ?b)))"
    by auto
  have 1: "\<exists>comments content. fleet_content sample_env ?a = Some (comments, content)
             \<and> helm_version content = Some (PStr ''9.9.9'')"
    using manifest_version
            [of sample_env ?a
                "[(''name'', PStr ''nginx''), (''version'', PStr ''9.9.9''),
                  (''appVersion'', PStr ''1.25''), (''description'', PStr ''web server'')]"
                "PStr ''9.9.9''"]
    by (simp add: sample_effective_metadata)
  have 2: "helm_version (snd (the (fleet_content sample_env ?b))) = Some (PStr ''1.2.0'')"
    using manifest_version
            [of sample_env ?b _ _ "fst (the (fleet_content sample_env ?b))"
                "snd (the (fleet_content sample_env ?b))"] eq
    by simp
  from 1 ne 2 show ?thesis by blast
qed

section \<open>Malformed values\<close>

lemma select_chart_values:
  "select_chart f s = Inr c \<Longrightarrow> config_values c = config_values (current_config s)"
  by (auto simp add: select_chart_def Let_def split: source_mode.splits option.splits)

lemma parse_values_malformed:
  "yaml_safe_load e text = Inl message \<Longrightarrow> parse_values e text old = Inl (message, old)"
  by (simp add: parse_values_def)

text \<open>
  C8. When the values text fails YAML parsing, generation writes no file and shows no
  preview, reports an error (the parser's message, once the selection is valid), and
  leaves the values of the config as they were: no empty values are put in their place.
\<close>

theorem malformed_values_abort:
  assumes "yaml_safe_load e (chart_values_text f) = Inl message"
  shows "files (generate_configuration e w f s) = files s
         \<and> preview_content (generate_configuration e w f s) = preview_content s
         \<and> config_values (current_config (generate_configuration e w f s))
             = config_values (current_config s)
         \<and> (\<exists>text. notifications (generate_configuration e w f s)
                      = notifications s @ [(text, ''error'')])
         \<and> (app_name_value f \<noteq> [] \<and> select_chart f s = Inr c
              \<longrightarrow> notifications (generate_configuration e w f s)
                    = notifications s @ [(''Error parsing values: '' @ message, ''error'')])"
  using assms
  by (auto simp add: generate_configuration_def notify_def parse_values_malformed
      select_chart_values split: sum.splits)

theorem malformed_values_abort_witness:
  "yaml_safe_load sample_env (chart_values_text (sample_form\<lparr>chart_values_text := ''a: b: c''\<rparr>))
     = Inl ''mapping values are not allowed here''
   \<and> files (generate_configuration sample_env sample_site
              (sample_form\<lparr>chart_values_text := ''a: b: c''\<rparr>) sample_screen)
       = files sample_screen
   \<and> notifications (generate_configuration sample_env sample_site
                      (sample_form\<lparr>chart_values_text := ''a: b: c''\<rparr>) sample_screen)
       = [(''Error parsing values: mapping values are not allowed here'', ''error'')]"
proof -
  let ?f = "sample_form\<lparr>chart_values_text := ''a: b: c''\<rparr>"
  have y: "yaml_safe_load sample_env (chart_values_text ?f)
             = Inl ''mapping values are not allowed here''"
    by (simp add: sample_env_def)
  have a: "app_name_value ?f \<noteq> []" by (simp add: sample_form_def)
  have b: "select_chart ?f sample_screen
             = Inr (sample_config\<lparr>app_name := ''demo'', chart_name := PStr ''my_chart/x'',
                      chart_version := PStr ''latest'', helm_repo := EEA_HELM_REPO,
                      target_cluster := [], namespace := ''prod''\<rparr>)"
    by (simp add: select_chart_def sample_form_def sample_screen_def)
  have n: "notifications sample_screen = []" by (simp add: sample_screen_def)
  from malformed_values_abort [OF y, of sample_site sample_screen] a b n y
  show ?thesis by simp
qed


section \<open>The chart catalog cache\<close>

lemma fetch_calls_only:
  "cached_charts (snd (fetch_charts_from_helm_repo e st)) = cached_charts st
   \<and> charts_cache_timestamp (snd (fetch_charts_from_helm_repo e st)) = charts_cache_timestamp st
   \<and> charts_cache_file (snd (fetch_charts_from_helm_repo e st)) = charts_cache_file st"
  by (simp add: fetch_charts_from_helm_repo_def helm_def Let_def
      split: prod.splits option.splits pyval.splits)

lemma load_if_empty_calls: "helm_calls (load_if_empty e st) = helm_calls st"
  by (simp add: load_if_empty_def Let_def split: prod.splits)

lemma EEA_CHARTS_sorted: "sorted EEA_CHARTS"
  unfolding EEA_CHARTS_def by (simp add: sorted1 sorted2 del: sorted_wrt.simps)

lemma EEA_CHARTS_nonempty: "EEA_CHARTS \<noteq> []"
  by (simp add: EEA_CHARTS_def)

lemma cache_hit:
  assumes "truthy (cached_charts (load_if_empty e st))"
    and "charts_cache_timestamp (load_if_empty e st) = Some (Naive t)"
    and "now - t < 3600 * 1000000"
  shows "get_eea_charts e now False allow_repo_fetch st
           = (cached_charts (load_if_empty e st), load_if_empty e st)"
  using assms by (simp add: get_eea_charts_def Let_def charts_cache_duration_def)

lemma sample_fetch:
  "fetch_charts_from_helm_repo sample_env st
     = ([], st\<lparr>helm_calls :=
                 helm_calls st @ [[''repo'', ''add'', ''eea'', EEA_HELM_REPO, ''--force-update'']]\<rparr>)"
  by (simp add: fetch_charts_from_helm_repo_def helm_def sample_env_def)

lemma sample_load_none:
  "load_if_empty e (sample_cache\<lparr>charts_cache_file := None\<rparr>)
     = sample_cache\<lparr>charts_cache_file := None\<rparr>"
  by (simp add: load_if_empty_def load_charts_cache_from_disk_def sample_cache_def)

lemma sample_load_disk:
  "load_charts_cache_from_disk sample_env sample_cache
     = (PList [PStr ''redis'', PStr ''volto''], Some (Naive 1000))"
  by (simp add: load_charts_cache_from_disk_def sample_cache_def sample_env_def)

text \<open>
  C6. With \<open>force_refresh\<close> false: when the memory cache is non-empty and its timestamp
  is less than 3600 seconds old, the cached list is returned and the state, with the
  record of helm commands, is unchanged; when the memory cache is empty and the disk
  cache holds a non-empty list with such a timestamp, that list is returned and becomes
  the memory cache, and no helm command is run.
\<close>

theorem cache_hit_short_circuit:
  "(truthy (cached_charts st) \<and> charts_cache_timestamp st = Some (Naive t)
      \<and> now - t < 3600 * 1000000
    \<longrightarrow> get_eea_charts e now False allow_repo_fetch st = (cached_charts st, st))
   \<and> (\<not> truthy (cached_charts st)
        \<and> load_charts_cache_from_disk e st = (charts, Some (Naive t))
        \<and> truthy charts \<and> now - t < 3600 * 1000000
      \<longrightarrow> fst (get_eea_charts e now False allow_repo_fetch st) = charts
          \<and> cached_charts (snd (get_eea_charts e now False allow_repo_fetch st)) = charts
          \<and> helm_calls (snd (get_eea_charts e now False allow_repo_fetch st)) = helm_calls st)"
proof (rule conjI; rule impI)
  assume a: "truthy (cached_charts st) \<and> charts_cache_timestamp st = Some (Naive t)
      \<and> now - t < 3600 * 1000000"
  then have l: "load_if_empty e st = st" by (simp add: load_if_empty_def)
  from a cache_hit [of e st t now allow_repo_fetch] l
  show "get_eea_charts e now False allow_repo_fetch st = (cached_charts st, st)" by simp
next
  assume b: "\<not> truthy (cached_charts st)
        \<and> load_charts_cache_from_disk e st = (charts, Some (Naive t))
        \<and> truthy charts \<and> now - t < 3600 * 1000000"
  then have l: "load_if_empty e st
                  = st\<lparr>cached_charts := charts, charts_cache_timestamp := Some (Naive t)\<rparr>"
    by (simp add: load_if_empty_def)
  from b cache_hit [of e st t now allow_repo_fetch] l
  have g: "get_eea_charts e now False allow_repo_fetch st
             = (charts, st\<lparr>cached_charts := charts, charts_cache_timestamp := Some (Naive t)\<rparr>)"
    by simp
  show "fst (get_eea_charts e now False allow_repo_fetch st) = charts
          \<and> cached_charts (snd (get_eea_charts e now False allow_repo_fetch st)) = charts
          \<and> helm_calls (snd (get_eea_charts e now False allow_repo_fetch st)) = helm_calls st"
    by (simp add: g)
qed

text \<open>
  A fresh process (empty memory cache) with a disk cache captured at 1000 microseconds,
  asked at 5000 microseconds with remote fetch allowed: the disk list, no helm command.
\<close>

theorem cache_hit_short_circuit_witness:
  "\<not> truthy (cached_charts sample_cache)
   \<and> load_charts_cache_from_disk sample_env sample_cache
       = (PList [PStr ''redis'', PStr ''volto''], Some (Naive 1000))
   \<and> (5000::int) - 1000 < 3600 * 1000000
   \<and> fst (get_eea_charts sample_env 5000 False True sample_cache)
        = PList [PStr ''redis'', PStr ''volto'']
   \<and> helm_calls (snd (get_eea_charts sample_env 5000 False True sample_cache)) = []"
proof -
  have a: "\<not> truthy (cached_charts sample_cache)" by (simp add: sample_cache_def)
  have h: "helm_calls sample_cache = []" by (simp add: sample_cache_def)
  from cache_hit_short_circuit
         [of sample_cache 1000 5000 sample_env True "PList [PStr ''redis'', PStr ''volto'']"]
       a sample_load_disk h
  show ?thesis by simp
qed

text \<open>
  C7. The getter is a total function: every path returns a list. Whenever the remote
  fetch fails (returns nothing), the result is the memory cache (as it stands after the
  lazy load from disk) when that is non-empty, and the static list otherwise; the
  static list is non-empty and sorted.
\<close>

theorem catalog_degrades:
  "(fst (fetch_charts_from_helm_repo e (load_if_empty e st)) = []
      \<longrightarrow> fst (get_eea_charts e now force_refresh allow_repo_fetch st)
            = (if truthy (cached_charts (load_if_empty e st))
               then cached_charts (load_if_empty e st) else PList (map PStr EEA_CHARTS)))
   \<and> EEA_CHARTS \<noteq> [] \<and> sorted EEA_CHARTS"
proof (intro conjI impI)
  assume f: "fst (fetch_charts_from_helm_repo e (load_if_empty e st)) = []"
  obtain st2 where fe: "fetch_charts_from_helm_repo e (load_if_empty e st) = ([], st2)"
    using f by (cases "fetch_charts_from_helm_repo e (load_if_empty e st)") simp
  have "cached_charts st2 = cached_charts (load_if_empty e st)"
    using fetch_calls_only [of e "load_if_empty e st"] fe by simp
  then have cs: "cached_or_static st2 = cached_or_static (load_if_empty e st)"
    by (simp add: cached_or_static_def)
  show "fst (get_eea_charts e now force_refresh allow_repo_fetch st)
            = (if truthy (cached_charts (load_if_empty e st))
               then cached_charts (load_if_empty e st) else PList (map PStr EEA_CHARTS))"
    using fe cs
    by (auto simp add: get_eea_charts_def Let_def cached_or_static_def
        split: option.splits bool.splits if_splits)
qed (rule EEA_CHARTS_nonempty, rule EEA_CHARTS_sorted)

text \<open>No disk cache and an unreachable repository: the static list.\<close>

theorem catalog_degrades_witness:
  "fst (fetch_charts_from_helm_repo sample_env
          (load_if_empty sample_env (sample_cache\<lparr>charts_cache_file := None\<rparr>))) = []
   \<and> fst (get_eea_charts sample_env 5000 False True (sample_cache\<lparr>charts_cache_file := None\<rparr>))
       = PList (map PStr EEA_CHARTS)"
  using catalog_degrades [of sample_env "sample_cache\<lparr>charts_cache_file := None\<rparr>" 5000 False True]
  by (simp add: sample_fetch sample_load_none) (simp add: sample_cache_def)


section \<open>The release metadata decoder\<close>

lemma secret_release_data_Some:
  assumes "secret_release_data e output = Some release_data"
  shows "\<exists>secret_data data_section.
           json_loads e output = Some secret_data
           \<and> py_get secret_data ''data'' (PDict []) = Some data_section
           \<and> py_get data_section ''release'' (PStr []) = Some release_data"
  using assms by (auto simp add: secret_release_data_def bind_eq_Some_conv)

lemma b64decode_val_Some: "b64decode_val e v = Some raw \<Longrightarrow> \<exists>s. v = PStr s \<and> b64decode e s = Some raw"
  by (cases v) auto

lemma decode_release_data_Some:
  assumes "decode_release_data e release_data = Some release_json"
  shows "\<exists>payload raw_once decoded_once decoded_twice raw_json decompressed.
           release_data = PStr payload
           \<and> b64decode e payload = Some raw_once
           \<and> utf8_decode e raw_once = Some decoded_once
           \<and> b64decode e (strip_quotes decoded_once) = Some decoded_twice
           \<and> gzip_decompress e decoded_twice = Some raw_json
           \<and> utf8_decode e raw_json = Some decompressed
           \<and> json_loads e decompressed = Some release_json"
  using assms
  by (auto simp add: decode_release_data_def bind_eq_Some_conv dest!: b64decode_val_Some)

lemma extract_chart_metadata_Some:
  assumes "extract_chart_metadata release_json = Some r"
  shows "all_fields_empty r
         \<or> (\<exists>chart_section md.
               py_get release_json ''chart'' (PDict []) = Some (PDict chart_section)
               \<and> map_of chart_section ''metadata'' = Some (PDict md))"
proof -
  from assms obtain chart_section chart_metadata where
    c: "py_get release_json ''chart'' (PDict []) = Some chart_section"
    and m: "(if is_dict chart_section then py_get chart_section ''metadata'' (PDict [])
             else Some (PDict [])) = Some chart_metadata"
    and r: "r = PDict [(''name'', the (py_get chart_metadata ''name'' (PStr []))),
                       (''version'', the (py_get chart_metadata ''version'' (PStr []))),
                       (''appVersion'', the (py_get chart_metadata ''appVersion'' (PStr []))),
                       (''description'', the (py_get chart_metadata ''description'' (PStr [])))]"
    by (auto simp add: extract_chart_metadata_def bind_eq_Some_conv)
  show ?thesis
  proof (cases chart_section)
    case (PDict cs)
    show ?thesis
    proof (cases "map_of cs ''metadata''")
      case None
      with m PDict have "chart_metadata = PDict []" by simp
      with r show ?thesis by (simp add: all_fields_empty_def)
    next
      case (Some mv)
      with m PDict have mv: "chart_metadata = mv" by simp
      from assms obtain kvs where "chart_metadata = PDict kvs"
        using m r by (cases chart_metadata) (auto simp add: extract_chart_metadata_def bind_eq_Some_conv c split: if_splits)
      with c PDict Some mv show ?thesis by auto
    qed
  qed (use m r in \<open>auto simp add: all_fields_empty_def\<close>)
qed

lemma extract_chart_metadata_shape:
  "extract_chart_metadata release_json = Some r \<Longrightarrow> \<exists>n v a d. r = metadata_object n v a d"
  by (auto simp add: extract_chart_metadata_def bind_eq_Some_conv metadata_object_def)

lemma decode_secret_shape:
  "decode_secret e output = Some r \<Longrightarrow> r = PDict [] \<or> (\<exists>n v a d. r = metadata_object n v a d)"
  by (auto simp add: decode_secret_def bind_eq_Some_conv split: if_splits
      dest: extract_chart_metadata_shape)

lemma decoder_shape:
  "get_helm_release_secret_metadata e rn ns kc = PDict []
   \<or> (\<exists>n v a d. get_helm_release_secret_metadata e rn ns kc = metadata_object n v a d)"
  by (auto simp add: get_helm_release_secret_metadata_def Let_def
      split: prod.splits option.splits dest: decode_secret_shape)

lemma all_fields_empty_empty: "all_fields_empty (PDict [])"
  by (simp add: all_fields_empty_def)

text \<open>
  C2. The decoder is a total function whose result is either the empty record or a record
  of exactly the four fields. Unless every stage succeeds (the secret is fetched and
  parses, both base64 decodings, the gzip decompression and the JSON parse succeed, and
  \<^verbatim>\<open>chart.metadata\<close> is present and an object), every field of the result reads as empty.
\<close>

theorem decoder_all_or_nothing:
  "(get_helm_release_secret_metadata e rn ns kc = PDict []
      \<or> (\<exists>n v a d. get_helm_release_secret_metadata e rn ns kc = metadata_object n v a d))
   \<and> ((\<forall>md. \<not> all_stages_succeed e rn ns md)
        \<longrightarrow> all_fields_empty (get_helm_release_secret_metadata e rn ns kc))"
proof (rule conjI [OF decoder_shape], rule impI, rule ccontr)
  assume no: "\<forall>md. \<not> all_stages_succeed e rn ns md"
  assume ne: "\<not> all_fields_empty (get_helm_release_secret_metadata e rn ns kc)"
  obtain success out where run: "run_rancher_command e (kubectl_args e rn ns) = (success, out)"
    by (cases "run_rancher_command e (kubectl_args e rn ns)")
  from ne have ok: "success" and dec: "decode_secret e out \<noteq> None"
    and res: "get_helm_release_secret_metadata e rn ns kc = the (decode_secret e out)"
    using run
    by (auto simp add: get_helm_release_secret_metadata_def all_fields_empty_empty
        split: if_splits option.splits)
  then obtain r where r: "decode_secret e out = Some r" by auto
  with res ne have nr: "\<not> all_fields_empty r" by simp
  from r nr obtain release_data release_json where
    rd: "secret_release_data e out = Some release_data"
    and rj: "decode_release_data e release_data = Some release_json"
    and ex: "extract_chart_metadata release_json = Some r"
    by (auto simp add: decode_secret_def bind_eq_Some_conv all_fields_empty_empty split: if_splits)
  from extract_chart_metadata_Some [OF ex] nr obtain chart_section md where
    "py_get release_json ''chart'' (PDict []) = Some (PDict chart_section)"
    "map_of chart_section ''metadata'' = Some (PDict md)"
    by blast
  moreover from secret_release_data_Some [OF rd] obtain secret_data data_section where
    "json_loads e out = Some secret_data"
    "py_get secret_data ''data'' (PDict []) = Some data_section"
    "py_get data_section ''release'' (PStr []) = Some release_data"
    by blast
  moreover from decode_release_data_Some [OF rj]
  obtain payload raw_once decoded_once decoded_twice raw_json decompressed where
    "release_data = PStr payload"
    "b64decode e payload = Some raw_once"
    "utf8_decode e raw_once = Some decoded_once"
    "b64decode e (strip_quotes decoded_once) = Some decoded_twice"
    "gzip_decompress e decoded_twice = Some raw_json"
    "utf8_decode e raw_json = Some decompressed"
    "json_loads e decompressed = Some release_json"
    by blast
  moreover from run ok have "run_rancher_command e (kubectl_args e rn ns) = (True, out)"
    by simp
  ultimately have "all_stages_succeed e rn ns md"
    unfolding all_stages_succeed_def by (intro exI conjI) (assumption | simp)+
  with no show False by blast
qed


lemma char_of_eq_mod: "char_of (n::nat) = c \<longleftrightarrow> n mod 256 = of_char c"
  by (metis of_char_of char_of_char)

lemma eq_char_of_mod: "c = char_of (n::nat) \<longleftrightarrow> n mod 256 = of_char c"
  by (metis of_char_of char_of_char)

lemma sample_broken_no_stage:
  "\<not> all_stages_succeed sample_env (PStr ''broken'') (PStr ''prod'') md"
  by (auto simp add: all_stages_succeed_def sample_env_def kubectl_args_def secret_document_def
      sample_b64encode_def sample_digit_def sample_utf8_decode_def strip_quotes_def
      startswith_def endswith_def char_of_eq_mod eq_char_of_mod)

text \<open>The secret of release \<^verbatim>\<open>broken\<close> fails at the gzip stage: all fields empty.\<close>

theorem decoder_all_or_nothing_witness:
  "(\<forall>md. \<not> all_stages_succeed sample_env (PStr ''broken'') (PStr ''prod'') md)
   \<and> all_fields_empty
        (get_helm_release_secret_metadata sample_env (PStr ''broken'') (PStr ''prod'') ''k'')"
  using decoder_all_or_nothing [of sample_env "PStr ''broken''" "PStr ''prod''" "''k''"]
    sample_broken_no_stage
  by blast

lemma strip_quotes_wrapped:
  assumes "CHR 0x22 \<notin> set (inner_text c metadata)"
  shows "strip_quotes (wrapped_text c quoted metadata) = inner_text c metadata"
proof (cases quoted)
  case True
  then show ?thesis
    by (simp add: wrapped_text_def strip_quotes_def startswith_def endswith_def slice_1_m1_def
        butlast_append)
next
  case False
  from assms have "\<not> startswith (inner_text c metadata) [CHR 0x22]"
    by (cases "inner_text c metadata") (auto simp add: startswith_def)
  with False show ?thesis by (simp add: wrapped_text_def strip_quotes_def)
qed

lemma join_ok_kubectl_args: "join_ok (kubectl_args e rn (PStr ns))"
  by (simp add: join_ok_def kubectl_args_def)

lemma extract_metadata_object:
  "extract_chart_metadata (release_document (metadata_object n v a d)) = Some (metadata_object n v a d)"
  by (simp add: extract_chart_metadata_def release_document_def metadata_object_def)

text \<open>
  C3. Round trip: when the secret that the command returns holds a well-formed payload
  for a metadata object of the four fields (JSON with the object under \<^verbatim>\<open>chart.metadata\<close>,
  gzip, base64, optionally quoted, base64 again), and the library decoders invert the
  library encoders on that payload, the decoder returns exactly the four field values.
\<close>

theorem decoder_round_trip:
  assumes "run_rancher_command e (kubectl_args e rn (PStr ns)) = (True, out)"
    and "strip out \<noteq> []"
    and "json_loads e out
           = Some (secret_document (encode_release c quoted (metadata_object n v a d)))"
    and "decoders_invert e c quoted (metadata_object n v a d)"
  shows "get_helm_release_secret_metadata e rn (PStr ns) kc = metadata_object n v a d"
proof -
  let ?md = "metadata_object n v a d"
  from assms(4) have
    j: "json_loads e (dumps c (release_document ?md)) = Some (release_document ?md)"
    and u2: "utf8_decode e (utf8_encode c (dumps c (release_document ?md)))
               = Some (dumps c (release_document ?md))"
    and g: "gzip_decompress e (gzip_compress c (utf8_encode c (dumps c (release_document ?md))))
              = Some (utf8_encode c (dumps c (release_document ?md)))"
    and b2: "b64decode e (inner_text c ?md)
               = Some (gzip_compress c (utf8_encode c (dumps c (release_document ?md))))"
    and q: "CHR 0x22 \<notin> set (inner_text c ?md)"
    and u1: "utf8_decode e (utf8_encode c (wrapped_text c quoted ?md))
               = Some (wrapped_text c quoted ?md)"
    and b1: "b64decode e (encode_release c quoted ?md)
               = Some (utf8_encode c (wrapped_text c quoted ?md))"
    and ne: "encode_release c quoted ?md \<noteq> []"
    by (simp_all add: decoders_invert_def Let_def inner_text_def encode_release_def)
  have rd: "secret_release_data e out = Some (PStr (encode_release c quoted ?md))"
    using assms(3) by (simp add: secret_release_data_def secret_document_def)
  have rj: "decode_release_data e (PStr (encode_release c quoted ?md))
              = Some (release_document ?md)"
    using j u2 g b2 u1 b1 strip_quotes_wrapped [OF q, of quoted]
    by (simp add: decode_release_data_def) (simp add: release_document_def)
  have "decode_secret e out = Some ?md"
    using rd rj ne by (simp add: decode_secret_def extract_metadata_object)
  with assms(1,2) show ?thesis
    by (simp add: get_helm_release_secret_metadata_def join_ok_kubectl_args)
qed

lemma sample_inverts: "decoders_invert sample_env sample_codec quoted sample_metadata"
  by (cases quoted)
     (simp_all add: decoders_invert_def Let_def sample_env_def sample_codec_def wrapped_text_def
       inner_text_def sample_b64encode_def sample_digit_def sample_utf8_decode_def
       encode_release_def release_document_def char_of_eq_mod eq_char_of_mod)

text \<open>The quoted payload of release \<^verbatim>\<open>web\<close> and the unquoted one of release \<^verbatim>\<open>api\<close>.\<close>

theorem decoder_round_trip_witness:
  "run_rancher_command sample_env (kubectl_args sample_env (PStr ''web'') (PStr ''prod''))
     = (True, ''SECRET'')
   \<and> strip ''SECRET'' \<noteq> []
   \<and> json_loads sample_env ''SECRET''
       = Some (secret_document (encode_release sample_codec True
                 (metadata_object (PStr ''nginx'') (PStr ''9.9.9'') (PStr ''1.25'')
                    (PStr ''web server''))))
   \<and> decoders_invert sample_env sample_codec True
        (metadata_object (PStr ''nginx'') (PStr ''9.9.9'') (PStr ''1.25'') (PStr ''web server''))
   \<and> get_helm_release_secret_metadata sample_env (PStr ''web'') (PStr ''prod'') ''k''
       = metadata_object (PStr ''nginx'') (PStr ''9.9.9'') (PStr ''1.25'') (PStr ''web server'')
   \<and> get_helm_release_secret_metadata sample_env (PStr ''api'') (PStr ''prod'') ''k''
       = metadata_object (PStr ''nginx'') (PStr ''9.9.9'') (PStr ''1.25'') (PStr ''web server'')"
proof -
  let ?md = "metadata_object (PStr ''nginx'') (PStr ''9.9.9'') (PStr ''1.25'') (PStr ''web server'')"
  have r1: "run_rancher_command sample_env (kubectl_args sample_env (PStr ''web'') (PStr ''prod''))
     = (True, ''SECRET'')"
    by (simp add: sample_env_def kubectl_args_def)
  have r2: "run_rancher_command sample_env (kubectl_args sample_env (PStr ''api'') (PStr ''prod''))
     = (True, ''SECRET-PLAIN'')"
    by (simp add: sample_env_def kubectl_args_def)
  have s1: "strip ''SECRET'' \<noteq> []" by (simp add: strip_def py_isspace_def)
  have s2: "strip ''SECRET-PLAIN'' \<noteq> []" by (simp add: strip_def py_isspace_def)
  have j1: "json_loads sample_env ''SECRET''
       = Some (secret_document (encode_release sample_codec True ?md))"
    by (simp add: sample_env_def sample_metadata_def)
  have j2: "json_loads sample_env ''SECRET-PLAIN''
       = Some (secret_document (encode_release sample_codec False ?md))"
    by (simp add: sample_env_def sample_metadata_def)
  have i: "\<And>quoted. decoders_invert sample_env sample_codec quoted ?md"
    using sample_inverts by (simp add: sample_metadata_def)
  from decoder_round_trip [OF r1 s1 j1 i, of "''k''"] decoder_round_trip [OF r2 s2 j2 i, of "''k''"]
    r1 s1 j1 i
  show ?thesis by simp
qed


section \<open>Backfill from the release secret\<close>

lemma sample_decoder_web:
  "get_helm_release_secret_metadata sample_env (PStr ''web'') (PStr ''prod'') ''/tmp/kubeconfig''
     = metadata_object (PStr ''nginx'') (PStr ''9.9.9'') (PStr ''1.25'') (PStr ''web server'')"
  by code_simp

lemma sample_listed:
  "listed_chart_fields sample_env sample_item True ''METADATA''
     = Some (PStr ''nginx'', PStr ''1.2.0'', PStr [])"
  by code_simp

lemma sample_releases:
  "list_helm_releases sample_env None
     = [\<lparr>rel_name = PStr ''web'', rel_namespace = PStr ''prod'', rel_chart = PStr ''nginx'',
         rel_version = ''3'', rel_status = PStr ''deployed'',
         rel_chart_version = PStr ''9.9.9'', rel_app_version = PStr ''1.25''\<rparr>]"
  by code_simp

text \<open>
  C1 (as the code has it). The merge of lines 740-746 always yields a result. When the
  listing already has both a chart version and an app version, the decoder is not
  consulted and the listed chart name, chart version and app version are kept. Otherwise
  the decoder is consulted: an empty result changes nothing, and with a result of four
  fields each of the three values is the decoded one when that is non-empty (whether or
  not the listing had a value) and the listed one when the decoded one is empty.
\<close>

theorem backfill_prefers_decoded:
  "\<exists>c' cv' av'.
     backfill_from_secret e rn ns kc (c, cv, av) = Some (c', cv', av')
     \<and> (truthy cv \<and> truthy av \<longrightarrow> (c', cv', av') = (c, cv, av))
     \<and> (\<not> (truthy cv \<and> truthy av) \<longrightarrow>
          (get_helm_release_secret_metadata e rn ns kc = PDict []
             \<longrightarrow> (c', cv', av') = (c, cv, av))
          \<and> (\<forall>n v a d. get_helm_release_secret_metadata e rn ns kc = metadata_object n v a d
                \<longrightarrow> c' = (if truthy n then n else c)
                    \<and> cv' = (if truthy v then v else cv)
                    \<and> av' = (if truthy a then a else av)))"
proof (cases "truthy cv \<and> truthy av")
  case True
  then show ?thesis by (simp add: backfill_from_secret_def)
next
  case False
  from decoder_shape [of e rn ns kc] show ?thesis
  proof
    assume "get_helm_release_secret_metadata e rn ns kc = PDict []"
    with False show ?thesis
      by (auto simp add: backfill_from_secret_def metadata_object_def)
  next
    assume "\<exists>n v a d. get_helm_release_secret_metadata e rn ns kc = metadata_object n v a d"
    then obtain n v a d where
      m: "get_helm_release_secret_metadata e rn ns kc = metadata_object n v a d" by blast
    with False show ?thesis
      by (auto simp add: backfill_from_secret_def metadata_object_def py_or_def)
  qed
qed

text \<open>
  Release \<^verbatim>\<open>web\<close>: listed with version \<^verbatim>\<open>1.2.0\<close> and no app version, the decoded
  \<^verbatim>\<open>9.9.9\<close> and \<^verbatim>\<open>1.25\<close> are taken; listed with both, nothing changes.
\<close>

theorem backfill_prefers_decoded_witness:
  "backfill_from_secret sample_env (PStr ''web'') (PStr ''prod'') ''/tmp/kubeconfig''
     (PStr ''nginx'', PStr ''1.2.0'', PStr [])
     = Some (PStr ''nginx'', PStr ''9.9.9'', PStr ''1.25'')
   \<and> backfill_from_secret sample_env (PStr ''web'') (PStr ''prod'') ''/tmp/kubeconfig''
       (PStr ''nginx'', PStr ''1.2.0'', PStr ''1.0'')
       = Some (PStr ''nginx'', PStr ''1.2.0'', PStr ''1.0'')"
  using backfill_prefers_decoded
          [of sample_env "PStr ''web''" "PStr ''prod''" "''/tmp/kubeconfig''"
              "PStr ''nginx''" "PStr ''1.2.0''" "PStr []"]
        backfill_prefers_decoded
          [of sample_env "PStr ''web''" "PStr ''prod''" "''/tmp/kubeconfig''"
              "PStr ''nginx''" "PStr ''1.2.0''" "PStr ''1.0''"]
        sample_decoder_web
  by (auto simp add: metadata_object_def)

text \<open>
  The listing of release \<^verbatim>\<open>web\<close> reports chart version \<^verbatim>\<open>1.2.0\<close>, its secret decodes to
  \<^verbatim>\<open>9.9.9\<close>, and the release that \<open>list_helm_releases\<close> returns carries \<^verbatim>\<open>9.9.9\<close>.
\<close>

theorem first_known_wins_counterexample:
  "listed_chart_fields sample_env sample_item True ''METADATA''
     = Some (PStr ''nginx'', PStr ''1.2.0'', PStr [])
   \<and> get_helm_release_secret_metadata sample_env (PStr ''web'') (PStr ''prod'') ''/tmp/kubeconfig''
       = metadata_object (PStr ''nginx'') (PStr ''9.9.9'') (PStr ''1.25'') (PStr ''web server'')
   \<and> map rel_chart_version (list_helm_releases sample_env None) = [PStr ''9.9.9'']
   \<and> map rel_chart_version (list_helm_releases sample_env None) \<noteq> [PStr ''1.2.0'']"
  by (simp add: sample_listed sample_decoder_web sample_releases)

section \<open>Chart suggestions\<close>

lemma fold_append_if:
  "fold (\<lambda>x acc. if P x then acc @ [x] else acc) xs acc = acc @ filter P xs"
  by (induction xs arbitrary: acc) auto

lemma fold_append_new:
  "\<exists>ys. fold (\<lambda>x acc. if Q x \<and> x \<notin> set acc then acc @ [x] else acc) xs acc = acc @ ys
        \<and> set ys \<subseteq> {x \<in> set xs. Q x} - set acc \<and> distinct ys"
proof (induction xs arbitrary: acc)
  case Nil
  then show ?case by simp
next
  case (Cons x xs)
  show ?case
  proof (cases "Q x \<and> x \<notin> set acc")
    case True
    from Cons.IH [of "acc @ [x]"] obtain ys where
      ys: "fold (\<lambda>x acc. if Q x \<and> x \<notin> set acc then acc @ [x] else acc) xs (acc @ [x])
             = (acc @ [x]) @ ys"
      "set ys \<subseteq> {x \<in> set xs. Q x} - set (acc @ [x])" "distinct ys"
      by blast
    with True show ?thesis
      by (intro exI [of _ "x # ys"]) auto
  next
    case False
    from Cons.IH [of acc] obtain ys where
      "fold (\<lambda>x acc. if Q x \<and> x \<notin> set acc then acc @ [x] else acc) xs acc = acc @ ys"
      "set ys \<subseteq> {x \<in> set xs. Q x} - set acc" "distinct ys"
      by blast
    with False show ?thesis
      by (intro exI [of _ ys]) auto
  qed
qed

lemma suggestions_shape:
  assumes "q \<noteq> []"
  shows "\<exists>ys. get_chart_suggestions cat q
                 = take 10 (filter (\<lambda>x. startswith (lower x) (lower q)) cat @ ys)
              \<and> set ys \<subseteq> {x \<in> set cat. contains (lower q) (lower x)
                                \<and> \<not> startswith (lower x) (lower q)}
              \<and> distinct ys"
proof -
  let ?P = "\<lambda>x. startswith (lower x) (lower q)"
  let ?Q = "\<lambda>x. contains (lower q) (lower x)"
  from fold_append_new [of ?Q cat "filter ?P cat"] obtain ys where
    ys: "fold (\<lambda>x acc. if ?Q x \<and> x \<notin> set acc then acc @ [x] else acc) cat (filter ?P cat)
           = filter ?P cat @ ys"
    "set ys \<subseteq> {x \<in> set cat. ?Q x} - set (filter ?P cat)" "distinct ys"
    by blast
  have "get_chart_suggestions cat q = take 10 (filter ?P cat @ ys)"
    using assms ys(1) by (simp add: get_chart_suggestions_def Let_def fold_append_if)
  moreover from ys(2) have "set ys \<subseteq> {x \<in> set cat. ?Q x \<and> \<not> ?P x}" by auto
  ultimately show ?thesis using ys(3) by blast
qed

text \<open>
  C10 (as the code has it). For every catalog and every input: at most 10 suggestions,
  all of them catalog names; no duplicates when the catalog has none; for the empty
  input the first 10 catalog entries; and for a non-empty input the names that start
  with it (ignoring case) come first, followed only by names that contain it without
  starting with it.
\<close>

theorem suggestions_limited_and_ordered:
  "length (get_chart_suggestions cat q) \<le> 10
   \<and> set (get_chart_suggestions cat q) \<subseteq> set cat
   \<and> (distinct cat \<longrightarrow> distinct (get_chart_suggestions cat q))
   \<and> (q = [] \<longrightarrow> get_chart_suggestions cat q = take 10 cat)
   \<and> (q \<noteq> [] \<longrightarrow>
        (\<exists>ps qs. get_chart_suggestions cat q = ps @ qs
           \<and> (\<forall>x \<in> set ps. startswith (lower x) (lower q))
           \<and> (\<forall>x \<in> set qs. \<not> startswith (lower x) (lower q)
                               \<and> contains (lower q) (lower x))))"
proof (cases "q = []")
  case True
  then have g: "get_chart_suggestions cat q = take 10 cat"
    by (simp add: get_chart_suggestions_def)
  show ?thesis using True g by (auto dest: in_set_takeD)
next
  case False
  let ?P = "\<lambda>x. startswith (lower x) (lower q)"
  from suggestions_shape [OF False, of cat] obtain ys where
    g: "get_chart_suggestions cat q = take 10 (filter ?P cat @ ys)"
    and sub: "set ys \<subseteq> {x \<in> set cat. contains (lower q) (lower x) \<and> \<not> ?P x}"
    and d: "distinct ys"
    by blast
  have 1: "length (get_chart_suggestions cat q) \<le> 10" by (simp add: g)
  have 2: "set (get_chart_suggestions cat q) \<subseteq> set cat"
    unfolding g using sub set_take_subset [of 10 "filter ?P cat @ ys"] by auto
  have 3: "distinct cat \<longrightarrow> distinct (get_chart_suggestions cat q)"
  proof
    assume "distinct cat"
    with d sub have "distinct (filter ?P cat @ ys)" by auto
    then show "distinct (get_chart_suggestions cat q)" unfolding g by (rule distinct_take)
  qed
  have 4: "\<exists>ps qs. get_chart_suggestions cat q = ps @ qs
           \<and> (\<forall>x \<in> set ps. ?P x)
           \<and> (\<forall>x \<in> set qs. \<not> ?P x \<and> contains (lower q) (lower x))"
  proof (intro exI conjI)
    show "get_chart_suggestions cat q
            = take 10 (filter ?P cat) @ take (10 - length (filter ?P cat)) ys"
      by (simp add: g)
    show "\<forall>x \<in> set (take 10 (filter ?P cat)). ?P x"
      by (auto dest: in_set_takeD)
    show "\<forall>x \<in> set (take (10 - length (filter ?P cat)) ys).
            \<not> ?P x \<and> contains (lower q) (lower x)"
      using sub by (auto dest: in_set_takeD)
  qed
  from False 1 2 3 4 show ?thesis by blast
qed

lemma sample_suggestions:
  "get_chart_suggestions [''redis'', ''volto'', ''varnish'', ''nova''] ''V''
     = [''volto'', ''varnish'', ''nova'']"
  by code_simp

text \<open>A catalog of four names and the input \<^verbatim>\<open>V\<close>.\<close>

theorem suggestions_limited_and_ordered_witness:
  "distinct [''redis'', ''volto'', ''varnish'', ''nova'']
   \<and> distinct (get_chart_suggestions [''redis'', ''volto'', ''varnish'', ''nova''] ''V'')
   \<and> length (get_chart_suggestions [''redis'', ''volto'', ''varnish'', ''nova''] ''V'') \<le> 10
   \<and> get_chart_suggestions [''redis'', ''volto'', ''varnish'', ''nova''] ''V''
       = [''volto'', ''varnish'', ''nova'']
   \<and> get_chart_suggestions [''redis'', ''volto'', ''varnish'', ''nova''] [] 
       = [''redis'', ''volto'', ''varnish'', ''nova'']"
  using suggestions_limited_and_ordered [of "[''redis'', ''volto'', ''varnish'', ''nova'']" "''V''"]
    suggestions_limited_and_ordered [of "[''redis'', ''volto'', ''varnish'', ''nova'']" "[]"]
    sample_suggestions
  by simp

lemma sample_twice_cache:
  "fst (get_eea_charts sample_env 5000 False False
          (sample_cache\<lparr>charts_cache_file := Some ''CACHE-TWICE''\<rparr>))
     = PList [PStr ''volto'', PStr ''volto'']"
  by code_simp

lemma sample_twice_suggestions: "get_chart_suggestions [''volto'', ''volto''] ''v'' = [''volto'', ''volto'']"
  by code_simp

text \<open>
  A disk cache that lists \<^verbatim>\<open>volto\<close> twice is loaded as it is, and the input \<^verbatim>\<open>v\<close> then gets
  \<^verbatim>\<open>volto\<close> twice: the loop over the names that start with the input has no membership test.
\<close>

theorem suggestions_duplicates_counterexample:
  "fst (get_eea_charts sample_env 5000 False False
          (sample_cache\<lparr>charts_cache_file := Some ''CACHE-TWICE''\<rparr>))
     = PList (map PStr [''volto'', ''volto''])
   \<and> get_chart_suggestions [''volto'', ''volto''] ''v'' = [''volto'', ''volto'']
   \<and> \<not> distinct (get_chart_suggestions [''volto'', ''volto''] ''v'')"
  by (simp add: sample_twice_cache sample_twice_suggestions)


end
